theory Spec2Isabelle
  imports Complex_Main
begin

section \<open>JavaScript values\<close>

text \<open>
  The values the program handles are the ones \<open>JSON.parse\<close> produces, plus
  \<open>undefined\<close> (the result of reading an absent property). An object is the list of
  its own properties, keys distinct, in the order in which the engine lists them: the
  keys that are array indices in ascending order, then the others in the order in which
  they were created; a class
  instance is the same thing (its prototype has no data properties, and \<open>res.json\<close>
  serialises own properties only). A number is the value of a finite double; the code
  copies numbers and tests them for zero, it never computes with them.
\<close>

datatype json =
    JUndefined
  | JNull
  | JBool bool
  | JNum rat
  | JStr string
  | JArr "json list"
  | JObj "(string \<times> json) list"

type_synonym obj = "(string \<times> json) list"

text \<open>
  Exceptions. \<open>TypeError\<close> is what the engine raises when a property of \<open>undefined\<close>
  or \<open>null\<close> is read, or when a non-function is called; \<open>UpstreamError msg\<close> is the
  rejection of \<open>axios.get\<close>, with the error's message.
\<close>

datatype error = TypeError | UpstreamError string

definition bind_err :: "error + 'a \<Rightarrow> ('a \<Rightarrow> error + 'b) \<Rightarrow> error + 'b" where
  "bind_err m f = (case m of Inl e \<Rightarrow> Inl e | Inr v \<Rightarrow> f v)"

text \<open>
  \<open>field kvs k\<close> is what an object with the properties \<open>kvs\<close> yields for the key
  \<open>k\<close>: the property, or \<open>undefined\<close>.
  \<open>data.k\<close>: reading a property. It raises on \<open>undefined\<close> and \<open>null\<close>; on an object it
  is the own property or \<open>undefined\<close>; on a boolean, number, string or array it is
  \<open>undefined\<close> for every property name the program reads (none of them is \<open>length\<close>,
  an index, or a name on a built-in prototype).
\<close>

definition field :: "obj \<Rightarrow> string \<Rightarrow> json" where
  "field kvs k = (case map_of kvs k of None \<Rightarrow> JUndefined | Some v \<Rightarrow> v)"

fun get_prop :: "json \<Rightarrow> string \<Rightarrow> error + json" where
  "get_prop JUndefined k = Inl TypeError"
| "get_prop JNull k = Inl TypeError"
| "get_prop (JObj kvs) k = Inr (field kvs k)"
| "get_prop v k = Inr JUndefined"

text \<open>
  \<open>this.k = v\<close> for a key that is not an array index, as every key the program
  names is: an existing property keeps its place, a new one goes last.
\<close>

fun set_prop :: "obj \<Rightarrow> string \<Rightarrow> json \<Rightarrow> obj" where
  "set_prop [] k v = [(k, v)]"
| "set_prop (p # ps) k v = (if fst p = k then (k, v) # ps else p # set_prop ps k v)"

text \<open>\<open>this.k = rhs\<close> where evaluating \<open>rhs\<close> may raise.\<close>

definition assign :: "obj \<Rightarrow> string \<Rightarrow> error + json \<Rightarrow> error + obj" where
  "assign this k rhs = bind_err rhs (\<lambda>v. Inr (set_prop this k v))"

text \<open>JavaScript truthiness and the \<open>||\<close> operator.\<close>

fun truthy :: "json \<Rightarrow> bool" where
  "truthy JUndefined = False"
| "truthy JNull = False"
| "truthy (JBool b) = b"
| "truthy (JNum n) = (n \<noteq> 0)"
| "truthy (JStr s) = (s \<noteq> [])"
| "truthy (JArr xs) = True"
| "truthy (JObj kvs) = True"

definition js_or :: "json \<Rightarrow> json \<Rightarrow> json" where
  "js_or a b = (if truthy a then a else b)"

section \<open>Entity constructors (models/)\<close>

text \<open>
  Each constructor takes the raw value \<open>data\<close> and the instance under construction
  and performs the assignments of the source in order. \<open>new C(data)\<close> starts from the
  empty instance.
\<close>

definition Media :: "json \<Rightarrow> obj \<Rightarrow> error + obj" where
  "Media data this0 =
     bind_err (assign this0 ''id'' (get_prop data ''id'')) (\<lambda>this1.
     bind_err (assign this1 ''mediaType''
                 (bind_err (get_prop data ''media_type'') (\<lambda>v. Inr (js_or v (JStr ''unknown''))))) (\<lambda>this2.
     bind_err (assign this2 ''popularity'' (get_prop data ''popularity'')) (\<lambda>this3.
     bind_err (assign this3 ''overview'' (get_prop data ''overview'')) (\<lambda>this4.
     bind_err (assign this4 ''posterPath'' (get_prop data ''poster_path'')) (\<lambda>this5.
     assign this5 ''backdropPath'' (get_prop data ''backdrop_path''))))))"

definition Movie_body :: "json \<Rightarrow> obj \<Rightarrow> error + obj" where
  "Movie_body data this0 =
     bind_err (Media data this0) (\<lambda>this1.
     bind_err (assign this1 ''mediaType'' (Inr (JStr ''Movie''))) (\<lambda>this2.
     bind_err (assign this2 ''title'' (get_prop data ''title'')) (\<lambda>this3.
     bind_err (assign this3 ''originalTitle'' (get_prop data ''original_title'')) (\<lambda>this4.
     bind_err (assign this4 ''releaseDate'' (get_prop data ''release_date'')) (\<lambda>this5.
     bind_err (assign this5 ''genreIds'' (get_prop data ''genre_ids'')) (\<lambda>this6.
     bind_err (assign this6 ''voteAverage'' (get_prop data ''vote_average'')) (\<lambda>this7.
     assign this7 ''voteCount'' (get_prop data ''vote_count''))))))))"

definition Movie :: "json \<Rightarrow> error + json" where
  "Movie data = bind_err (Movie_body data []) (\<lambda>this. Inr (JObj this))"

definition TVShow_body :: "json \<Rightarrow> obj \<Rightarrow> error + obj" where
  "TVShow_body data this0 =
     bind_err (Media data this0) (\<lambda>this1.
     bind_err (assign this1 ''mediaType'' (Inr (JStr ''TVShow''))) (\<lambda>this2.
     bind_err (assign this2 ''name'' (get_prop data ''name'')) (\<lambda>this3.
     bind_err (assign this3 ''originalName'' (get_prop data ''original_name'')) (\<lambda>this4.
     bind_err (assign this4 ''firstAirDate'' (get_prop data ''first_air_date'')) (\<lambda>this5.
     bind_err (assign this5 ''genreIds'' (get_prop data ''genre_ids'')) (\<lambda>this6.
     bind_err (assign this6 ''voteAverage'' (get_prop data ''vote_average'')) (\<lambda>this7.
     assign this7 ''voteCount'' (get_prop data ''vote_count''))))))))"

definition TVShow :: "json \<Rightarrow> error + json" where
  "TVShow data = bind_err (TVShow_body data []) (\<lambda>this. Inr (JObj this))"

definition Person_body :: "json \<Rightarrow> obj \<Rightarrow> error + obj" where
  "Person_body data this0 =
     bind_err (Media data this0) (\<lambda>this1.
     bind_err (assign this1 ''mediaType'' (Inr (JStr ''Person''))) (\<lambda>this2.
     bind_err (assign this2 ''name'' (get_prop data ''name'')) (\<lambda>this3.
     bind_err (assign this3 ''knownFor'' (get_prop data ''known_for'')) (\<lambda>this4.
     bind_err (assign this4 ''gender'' (get_prop data ''gender'')) (\<lambda>this5.
     assign this5 ''knownForDepartment'' (get_prop data ''known_for_department''))))))"

definition Person :: "json \<Rightarrow> error + json" where
  "Person data = bind_err (Person_body data []) (\<lambda>this. Inr (JObj this))"

definition Review_body :: "json \<Rightarrow> obj \<Rightarrow> error + obj" where
  "Review_body data this0 =
     bind_err (assign this0 ''author'' (get_prop data ''author'')) (\<lambda>this1.
     bind_err (assign this1 ''content'' (get_prop data ''content'')) (\<lambda>this2.
     bind_err (assign this2 ''created'' (get_prop data ''created_at'')) (\<lambda>this3.
     bind_err (assign this3 ''updated'' (get_prop data ''updated_at'')) (\<lambda>this4.
     assign this4 ''rating''
       (bind_err (get_prop data ''author_details'') (\<lambda>d.
        bind_err (get_prop d ''rating'') (\<lambda>r. Inr (js_or r (JNum 0)))))))))"

definition Review :: "json \<Rightarrow> error + json" where
  "Review data = bind_err (Review_body data []) (\<lambda>this. Inr (JObj this))"

section \<open>Collections\<close>

text \<open>
  \<open>xs.map(f)\<close> for a callback that may raise: the elements are visited from the left
  and the first exception ends the traversal.
\<close>

fun js_map :: "(json \<Rightarrow> error + json) \<Rightarrow> json list \<Rightarrow> error + json list" where
  "js_map f [] = Inr []"
| "js_map f (x # xs) =
     bind_err (f x) (\<lambda>y. bind_err (js_map f xs) (\<lambda>ys. Inr (y # ys)))"

text \<open>
  \<open>v.map(f)\<close> on an arbitrary value: only an array has a \<open>map\<close> method, anything
  else raises (no property of \<open>undefined\<close>, or not a function).
\<close>

fun array_map :: "(json \<Rightarrow> error + json) \<Rightarrow> json \<Rightarrow> error + json" where
  "array_map f (JArr xs) = bind_err (js_map f xs) (\<lambda>ys. Inr (JArr ys))"
| "array_map f v = Inl TypeError"

text \<open>\<open>data.results.map((item) => new C(item))\<close>, the expression the list handlers share.\<close>

definition results_map :: "(json \<Rightarrow> error + json) \<Rightarrow> json \<Rightarrow> error + json" where
  "results_map ctor data = bind_err (get_prop data ''results'') (array_map ctor)"

text \<open>The callback of the multi-search handler: a \<open>switch\<close> on \<open>item.media_type\<close>.\<close>

definition multi_item :: "json \<Rightarrow> error + json" where
  "multi_item item =
     bind_err (get_prop item ''media_type'') (\<lambda>t.
       if t = JStr ''movie'' then Movie item
       else if t = JStr ''tv'' then TVShow item
       else if t = JStr ''person'' then Person item
       else Inr item)"

section \<open>Upstream client (helpers/tmdbHelper.js)\<close>

record config =
  TMDB_API_KEY :: string
  TMDB_BASE_URL :: string

text \<open>
  \<open>axios.get(url, {params})\<close> is a parameter: it yields the parsed body or rejects.
  The list of the requests issued so far is the state the handlers thread. What the
  client and the handlers write to the console is left out.
\<close>

type_synonym net = "string \<Rightarrow> obj \<Rightarrow> error + json"
type_synonym calls = "(string \<times> obj) list"

definition axios_get :: "net \<Rightarrow> string \<Rightarrow> obj \<Rightarrow> calls \<Rightarrow> (error + json) \<times> calls" where
  "axios_get net url params cs = (net url params, cs @ [(url, params)])"

definition startsWith_slash :: "string \<Rightarrow> bool" where
  "startsWith_slash s = (case s of [] \<Rightarrow> False | c # cs \<Rightarrow> c = CHR ''/'')"

definition endsWith_slash :: "string \<Rightarrow> bool" where
  "endsWith_slash s = (s \<noteq> [] \<and> last s = CHR ''/'')"

definition tmdbBaseUrl :: "config \<Rightarrow> string" where
  "tmdbBaseUrl cfg =
     (if endsWith_slash (TMDB_BASE_URL cfg) then butlast (TMDB_BASE_URL cfg)
      else TMDB_BASE_URL cfg)"

text \<open>A non-empty string of the digits 0 to 9, and the number it writes.\<close>

definition is_digit :: "char \<Rightarrow> bool" where
  "is_digit c = (c \<in> set ''0123456789'')"

definition all_digits :: "string \<Rightarrow> bool" where
  "all_digits s = (s \<noteq> [] \<and> list_all is_digit s)"

definition digit_value :: "char \<Rightarrow> nat" where
  "digit_value c = length (takeWhile (\<lambda>d. d \<noteq> c) ''0123456789'')"

definition decimal_value :: "string \<Rightarrow> nat" where
  "decimal_value s = foldl (\<lambda>n c. 10 * n + digit_value c) 0 s"

text \<open>
  A property key is an array index when it is the decimal writing, without leading
  zeros, of a number below \<open>2^32 - 1\<close>. An object lists its array indices first, in
  ascending order, and its other keys after them in the order of their creation.
\<close>

definition array_index :: "string \<Rightarrow> nat option" where
  "array_index k =
     (if all_digits k \<and> (length k = 1 \<or> hd k \<noteq> CHR ''0'') \<and> decimal_value k < 4294967295
      then Some (decimal_value k) else None)"

definition index_value :: "string \<Rightarrow> nat" where
  "index_value k = (case array_index k of Some n \<Rightarrow> n | None \<Rightarrow> 0)"

definition is_array_index :: "string \<Rightarrow> bool" where
  "is_array_index k = (array_index k \<noteq> None)"

definition own_property_order :: "obj \<Rightarrow> obj" where
  "own_property_order created =
     sort_key (\<lambda>p. index_value (fst p)) (filter (\<lambda>p. is_array_index (fst p)) created)
     @ filter (\<lambda>p. \<not> is_array_index (fst p)) created"

text \<open>
  \<open>{...target, ...src}\<close>: the properties of \<open>src\<close> are set on \<open>target\<close> one after the
  other (\<open>assign_all\<close> keeps the order of creation), and the object lists them in its
  own order. Here a key of \<open>src\<close> may be an array index.
\<close>

definition assign_all :: "obj \<Rightarrow> obj \<Rightarrow> obj" where
  "assign_all target src = foldl (\<lambda>acc (k, v). set_prop acc k v) target src"

definition spread :: "obj \<Rightarrow> obj \<Rightarrow> obj" where
  "spread target src = own_property_order (assign_all target src)"

definition normalized_endpoint :: "string \<Rightarrow> string" where
  "normalized_endpoint endpoint =
     (if startsWith_slash endpoint then endpoint else ''/'' @ endpoint)"

definition fetchFromTmdb :: "config \<Rightarrow> net \<Rightarrow> string \<Rightarrow> obj \<Rightarrow> calls \<Rightarrow> (error + json) \<times> calls" where
  "fetchFromTmdb cfg net endpoint params cs =
     (let url = tmdbBaseUrl cfg @ normalized_endpoint endpoint;
          fullParams = spread [(''api_key'', JStr (TMDB_API_KEY cfg))] params
      in axios_get net url fullParams cs)"

section \<open>Responses and the shape of a handler\<close>

datatype rbody = Json json | Text string

record response =
  status :: nat
  body :: rbody

definition res_json :: "nat \<Rightarrow> json \<Rightarrow> response" where
  "res_json code v = \<lparr>status = code, body = Json v\<rparr>"

definition res_send :: "nat \<Rightarrow> string \<Rightarrow> response" where
  "res_send code s = \<lparr>status = code, body = Text s\<rparr>"

definition error_body :: "string \<Rightarrow> json" where
  "error_body msg = JObj [(''error'', JStr msg)]"

text \<open>
  \<open>try { const data = await <fetch>; res.json(<shape>(data)) }
   catch (error) { res.status(500).json({ error: msg }) }\<close>
\<close>

definition try_catch ::
  "(error + json) \<times> calls \<Rightarrow> (json \<Rightarrow> error + json) \<Rightarrow> string \<Rightarrow> response \<times> calls" where
  "try_catch fetched shape msg =
     (case bind_err (fst fetched) shape of
        Inr out \<Rightarrow> (res_json 200 out, snd fetched)
      | Inl e \<Rightarrow> (res_json 500 (error_body msg), snd fetched))"

text \<open>
  What the engine and the libraries supply: \<open>Number(s)\<close> printed back in a template
  literal, the printing of a number, and \<open>encodeURIComponent\<close> (which may raise).
\<close>

record runtime =
  number_template :: "string \<Rightarrow> string"
  number_to_string :: "rat \<Rightarrow> string"
  encodeURIComponent :: "string \<Rightarrow> error + string"

fun join_comma :: "string list \<Rightarrow> string" where
  "join_comma [] = []"
| "join_comma [x] = x"
| "join_comma (x # y # ys) = x @ '','' @ join_comma (y # ys)"

text \<open>
  The string a value turns into inside a template literal. An object is taken to have
  no own \<open>toString\<close> or \<open>valueOf\<close> property (with one, the conversion raises).
\<close>

fun to_string :: "runtime \<Rightarrow> json \<Rightarrow> string" where
  "to_string rt JUndefined = ''undefined''"
| "to_string rt JNull = ''null''"
| "to_string rt (JBool b) = (if b then ''true'' else ''false'')"
| "to_string rt (JNum n) = number_to_string rt n"
| "to_string rt (JStr s) = s"
| "to_string rt (JArr xs) =
     join_comma (map (\<lambda>x. if x = JUndefined \<or> x = JNull then [] else to_string rt x) xs)"
| "to_string rt (JObj kvs) = ''[object Object]''"

section \<open>Generic routes (controller/tmdbController.js)\<close>

text \<open>
  A handler takes what it reads of the request (the value of \<open>req.query.query\<close>,
  \<open>undefined\<close> when absent, and its path parameters) and returns the response
  together with the list of upstream requests.
\<close>

definition tmdb_health :: "response" where
  "tmdb_health = res_json 200 (JObj [(''message'', JStr ''TMDb API is running'')])"

definition tmdb_auth_validate :: "config \<Rightarrow> net \<Rightarrow> calls \<Rightarrow> response \<times> calls" where
  "tmdb_auth_validate cfg net cs =
     (case fetchFromTmdb cfg net ''/authentication/token/new'' [] cs of
        (Inr data, cs') \<Rightarrow> (res_json 200 (JObj [(''message'', JStr ''API Key is valid'')]), cs')
      | (Inl e, cs') \<Rightarrow> (res_json 401 (error_body ''Invalid API Key''), cs'))"

definition tmdb_search_collection :: "config \<Rightarrow> net \<Rightarrow> json \<Rightarrow> calls \<Rightarrow> response \<times> calls" where
  "tmdb_search_collection cfg net query cs =
     try_catch (fetchFromTmdb cfg net ''/search/collection'' [(''query'', query)] cs)
       Inr
       ''Failed to fetch collections''"

definition tmdb_search_company :: "config \<Rightarrow> net \<Rightarrow> json \<Rightarrow> calls \<Rightarrow> response \<times> calls" where
  "tmdb_search_company cfg net query cs =
     try_catch (fetchFromTmdb cfg net ''/search/company'' [(''query'', query)] cs)
       Inr
       ''Failed to fetch companies''"

definition tmdb_search_multi :: "config \<Rightarrow> net \<Rightarrow> json \<Rightarrow> calls \<Rightarrow> response \<times> calls" where
  "tmdb_search_multi cfg net query cs =
     try_catch (fetchFromTmdb cfg net ''/search/multi'' [(''query'', query)] cs)
       (\<lambda>data. bind_err (results_map multi_item data) (\<lambda>searchResults.
          Inr (JObj [(''searchResults'', searchResults)])))
       ''Failed to fetch multi-search results''"

definition tmdb_search_keyword :: "config \<Rightarrow> net \<Rightarrow> json \<Rightarrow> calls \<Rightarrow> response \<times> calls" where
  "tmdb_search_keyword cfg net query cs =
     try_catch (fetchFromTmdb cfg net ''/search/keyword'' [(''query'', query)] cs)
       Inr
       ''Failed to fetch keywords''"

section \<open>Movie routes (controller/movieController.js)\<close>

definition movie_health :: "response" where
  "movie_health = res_json 200 (JObj [(''message'', JStr ''Movie API is running'')])"

definition movie_images :: "config \<Rightarrow> net \<Rightarrow> string \<Rightarrow> calls \<Rightarrow> response \<times> calls" where
  "movie_images cfg net movie_id cs =
     try_catch (fetchFromTmdb cfg net (''/movie/'' @ movie_id @ ''/images'') [] cs)
       Inr
       ''Failed to fetch movie images''"

definition movie_credits :: "config \<Rightarrow> net \<Rightarrow> string \<Rightarrow> calls \<Rightarrow> response \<times> calls" where
  "movie_credits cfg net movie_id cs =
     try_catch (fetchFromTmdb cfg net (''/movie/'' @ movie_id @ ''/credits'') [] cs)
       (\<lambda>data.
          bind_err (get_prop data ''cast'') (\<lambda>c. bind_err (array_map Person c) (\<lambda>cast.
          bind_err (get_prop data ''crew'') (\<lambda>c. bind_err (array_map Person c) (\<lambda>crew.
          Inr (JObj [(''cast'', cast), (''crew'', crew)]))))))
       ''Failed to fetch movie credits''"

definition movie_external_ids :: "config \<Rightarrow> net \<Rightarrow> string \<Rightarrow> calls \<Rightarrow> response \<times> calls" where
  "movie_external_ids cfg net movie_id cs =
     try_catch (fetchFromTmdb cfg net (''/movie/'' @ movie_id @ ''/external_ids'') [] cs)
       Inr
       ''Failed to fetch movie external IDs''"

definition movie_recommendations :: "config \<Rightarrow> net \<Rightarrow> string \<Rightarrow> calls \<Rightarrow> response \<times> calls" where
  "movie_recommendations cfg net movie_id cs =
     try_catch (fetchFromTmdb cfg net (''/movie/'' @ movie_id @ ''/recommendations'') [] cs)
       (results_map Movie)
       ''Failed to fetch movie recommendations''"

definition movie_reviews :: "config \<Rightarrow> net \<Rightarrow> string \<Rightarrow> calls \<Rightarrow> response \<times> calls" where
  "movie_reviews cfg net movie_id cs =
     try_catch (fetchFromTmdb cfg net (''/movie/'' @ movie_id @ ''/reviews'') [] cs)
       (results_map Review)
       ''Failed to fetch movie reviews''"

definition movie_similar :: "config \<Rightarrow> net \<Rightarrow> string \<Rightarrow> calls \<Rightarrow> response \<times> calls" where
  "movie_similar cfg net movie_id cs =
     try_catch (fetchFromTmdb cfg net (''/movie/'' @ movie_id @ ''/similar'') [] cs)
       (results_map Movie)
       ''Failed to fetch similar movies''"

definition movie_videos :: "config \<Rightarrow> net \<Rightarrow> string \<Rightarrow> calls \<Rightarrow> response \<times> calls" where
  "movie_videos cfg net movie_id cs =
     try_catch (fetchFromTmdb cfg net (''/movie/'' @ movie_id @ ''/videos'') [] cs)
       (\<lambda>data. get_prop data ''results'')
       ''Failed to fetch movie videos''"

definition movie_watch_providers :: "config \<Rightarrow> net \<Rightarrow> string \<Rightarrow> calls \<Rightarrow> response \<times> calls" where
  "movie_watch_providers cfg net movie_id cs =
     try_catch (fetchFromTmdb cfg net (''/movie/'' @ movie_id @ ''/watch/providers'') [] cs)
       (\<lambda>data. get_prop data ''results'')
       ''Failed to fetch movie watch providers''"

definition movie_search :: "config \<Rightarrow> net \<Rightarrow> json \<Rightarrow> calls \<Rightarrow> response \<times> calls" where
  "movie_search cfg net query cs =
     (if \<not> truthy query then (res_json 400 (error_body ''Query parameter is required''), cs)
      else try_catch (fetchFromTmdb cfg net ''/search/movie'' [(''query'', query)] cs)
       (results_map Movie)
       ''Failed to search movies'')"

definition movie_popular :: "config \<Rightarrow> net \<Rightarrow> calls \<Rightarrow> response \<times> calls" where
  "movie_popular cfg net cs =
     try_catch (fetchFromTmdb cfg net ''/movie/popular'' [] cs)
       (results_map Movie)
       ''Failed to fetch popular movies''"

definition movie_now_playing :: "config \<Rightarrow> net \<Rightarrow> calls \<Rightarrow> response \<times> calls" where
  "movie_now_playing cfg net cs =
     try_catch (fetchFromTmdb cfg net ''/movie/now_playing'' [] cs)
       (results_map Movie)
       ''Failed to fetch now playing movies''"

definition movie_top_rated :: "config \<Rightarrow> net \<Rightarrow> calls \<Rightarrow> response \<times> calls" where
  "movie_top_rated cfg net cs =
     try_catch (fetchFromTmdb cfg net ''/movie/top_rated'' [] cs)
       (results_map Movie)
       ''Failed to fetch top-rated movies''"

definition movie_upcoming :: "config \<Rightarrow> net \<Rightarrow> calls \<Rightarrow> response \<times> calls" where
  "movie_upcoming cfg net cs =
     try_catch (fetchFromTmdb cfg net ''/movie/upcoming'' [] cs)
       (results_map Movie)
       ''Failed to fetch upcoming movies''"

text \<open>The route pattern admits digits only; the handler converts the parameter with \<open>Number\<close>.\<close>

definition movie_details :: "runtime \<Rightarrow> config \<Rightarrow> net \<Rightarrow> string \<Rightarrow> calls \<Rightarrow> response \<times> calls" where
  "movie_details rt cfg net movie_id cs =
     try_catch (fetchFromTmdb cfg net (''/movie/'' @ number_template rt movie_id) [] cs)
       Movie
       ''Failed to fetch movie details''"

section \<open>TV routes (controller/tvShowController.js)\<close>

definition tv_health :: "response" where
  "tv_health = res_json 200 (JObj [(''message'', JStr ''TV Show API is running'')])"

definition tv_popular :: "config \<Rightarrow> net \<Rightarrow> calls \<Rightarrow> response \<times> calls" where
  "tv_popular cfg net cs =
     try_catch (fetchFromTmdb cfg net ''/tv/popular'' [] cs)
       (results_map TVShow)
       ''Failed to fetch popular TV shows''"

definition tv_latest :: "config \<Rightarrow> net \<Rightarrow> calls \<Rightarrow> response \<times> calls" where
  "tv_latest cfg net cs =
     try_catch (fetchFromTmdb cfg net ''/tv/latest'' [] cs)
       TVShow
       ''Failed to fetch latest TV show''"

definition tv_airing_today :: "config \<Rightarrow> net \<Rightarrow> calls \<Rightarrow> response \<times> calls" where
  "tv_airing_today cfg net cs =
     try_catch (fetchFromTmdb cfg net ''/tv/airing_today'' [] cs)
       (results_map TVShow)
       ''Failed to fetch airing today TV shows''"

definition tv_on_the_air :: "config \<Rightarrow> net \<Rightarrow> calls \<Rightarrow> response \<times> calls" where
  "tv_on_the_air cfg net cs =
     try_catch (fetchFromTmdb cfg net ''/tv/on_the_air'' [] cs)
       (results_map TVShow)
       ''Failed to fetch TV shows on the air''"

definition tv_top_rated :: "config \<Rightarrow> net \<Rightarrow> calls \<Rightarrow> response \<times> calls" where
  "tv_top_rated cfg net cs =
     try_catch (fetchFromTmdb cfg net ''/tv/top_rated'' [] cs)
       (results_map TVShow)
       ''Failed to fetch top-rated TV shows''"

definition tv_search :: "runtime \<Rightarrow> config \<Rightarrow> net \<Rightarrow> json \<Rightarrow> calls \<Rightarrow> response \<times> calls" where
  "tv_search rt cfg net query cs =
     (if \<not> truthy query then (res_json 400 (error_body ''Query parameter is required''), cs)
      else (case encodeURIComponent rt (to_string rt query) of
              Inl e \<Rightarrow> (res_json 500 (error_body ''Failed to search TV shows''), cs)
            | Inr encoded \<Rightarrow>
                try_catch (fetchFromTmdb cfg net (''/search/tv?query='' @ encoded) [] cs)
                  (results_map TVShow)
                  ''Failed to search TV shows''))"

text \<open>
  The middleware \<open>validateSeriesId\<close>: the test \<open>/^\\d+$/\<close> (\<open>all_digits\<close>), and the
  400 it sends.
\<close>

definition validateSeriesId :: "string \<Rightarrow> (response \<times> calls) \<Rightarrow> calls \<Rightarrow> response \<times> calls" where
  "validateSeriesId series_id next cs =
     (if \<not> all_digits series_id
      then (res_json 400 (error_body ''Invalid series_id format. It must be a number.''), cs)
      else next)"

definition tv_details :: "config \<Rightarrow> net \<Rightarrow> string \<Rightarrow> calls \<Rightarrow> response \<times> calls" where
  "tv_details cfg net series_id cs =
     validateSeriesId series_id
       (try_catch (fetchFromTmdb cfg net (''/tv/'' @ series_id) [] cs)
       TVShow
       (''Failed to fetch TV show with id '' @ series_id)) cs"

definition tv_videos :: "config \<Rightarrow> net \<Rightarrow> string \<Rightarrow> calls \<Rightarrow> response \<times> calls" where
  "tv_videos cfg net series_id cs =
     validateSeriesId series_id
       (try_catch (fetchFromTmdb cfg net (''/tv/'' @ series_id @ ''/videos'') [] cs)
       (\<lambda>data. get_prop data ''results'')
       (''Failed to fetch videos for TV show with id '' @ series_id)) cs"

definition tv_watch_providers :: "config \<Rightarrow> net \<Rightarrow> string \<Rightarrow> calls \<Rightarrow> response \<times> calls" where
  "tv_watch_providers cfg net series_id cs =
     validateSeriesId series_id
       (try_catch (fetchFromTmdb cfg net (''/tv/'' @ series_id @ ''/watch/providers'') [] cs)
       (\<lambda>data. get_prop data ''results'')
       (''Failed to fetch watch providers for TV show with id '' @ series_id)) cs"

definition tv_images :: "config \<Rightarrow> net \<Rightarrow> string \<Rightarrow> calls \<Rightarrow> response \<times> calls" where
  "tv_images cfg net series_id cs =
     validateSeriesId series_id
       (try_catch (fetchFromTmdb cfg net (''/tv/'' @ series_id @ ''/images'') [] cs)
       (\<lambda>data. get_prop data ''backdrops'')
       (''Failed to fetch images for TV show with id '' @ series_id)) cs"

definition tv_credits :: "config \<Rightarrow> net \<Rightarrow> string \<Rightarrow> calls \<Rightarrow> response \<times> calls" where
  "tv_credits cfg net series_id cs =
     validateSeriesId series_id
       (try_catch (fetchFromTmdb cfg net (''/tv/'' @ series_id @ ''/credits'') [] cs)
       (\<lambda>data.
          bind_err (get_prop data ''cast'') (\<lambda>c. bind_err (array_map Person c) (\<lambda>cast.
          bind_err (get_prop data ''crew'') (\<lambda>c. bind_err (array_map Person c) (\<lambda>crew.
          Inr (JObj [(''cast'', cast), (''crew'', crew)]))))))
       (''Failed to fetch credits for TV show with id '' @ series_id)) cs"

definition tv_reviews :: "config \<Rightarrow> net \<Rightarrow> string \<Rightarrow> calls \<Rightarrow> response \<times> calls" where
  "tv_reviews cfg net series_id cs =
     validateSeriesId series_id
       (try_catch (fetchFromTmdb cfg net (''/tv/'' @ series_id @ ''/reviews'') [] cs)
       (results_map Review)
       (''Failed to fetch reviews for TV show with id '' @ series_id)) cs"

definition tv_recommendations :: "config \<Rightarrow> net \<Rightarrow> string \<Rightarrow> calls \<Rightarrow> response \<times> calls" where
  "tv_recommendations cfg net series_id cs =
     validateSeriesId series_id
       (try_catch (fetchFromTmdb cfg net (''/tv/'' @ series_id @ ''/recommendations'') [] cs)
       (results_map TVShow)
       (''Failed to fetch recommendations for TV show with id '' @ series_id)) cs"

definition tv_similar :: "config \<Rightarrow> net \<Rightarrow> string \<Rightarrow> calls \<Rightarrow> response \<times> calls" where
  "tv_similar cfg net series_id cs =
     validateSeriesId series_id
       (try_catch (fetchFromTmdb cfg net (''/tv/'' @ series_id @ ''/similar'') [] cs)
       (results_map TVShow)
       (''Failed to fetch similar TV shows for id '' @ series_id)) cs"

section \<open>Person routes (controller/personController.js)\<close>

definition person_health :: "response" where
  "person_health = res_json 200 (JObj [(''message'', JStr ''Person API is running'')])"

definition person_popular :: "config \<Rightarrow> net \<Rightarrow> calls \<Rightarrow> response \<times> calls" where
  "person_popular cfg net cs =
     try_catch (fetchFromTmdb cfg net ''/person/popular'' [] cs)
       (results_map Person)
       ''Failed to fetch popular persons''"

definition person_search :: "runtime \<Rightarrow> config \<Rightarrow> net \<Rightarrow> json \<Rightarrow> calls \<Rightarrow> response \<times> calls" where
  "person_search rt cfg net query cs =
     try_catch (fetchFromTmdb cfg net (''/search/person?query='' @ to_string rt query) [] cs)
       (results_map Person)
       ''Failed to perform search''"

definition person_movie_credits :: "config \<Rightarrow> net \<Rightarrow> string \<Rightarrow> calls \<Rightarrow> response \<times> calls" where
  "person_movie_credits cfg net person_id cs =
     try_catch (fetchFromTmdb cfg net (''/person/'' @ person_id @ ''/movie_credits'') [] cs)
       (\<lambda>data. bind_err (get_prop data ''cast'') (array_map Movie))
       ''Failed to fetch person movie credits''"

definition person_tv_credits :: "config \<Rightarrow> net \<Rightarrow> string \<Rightarrow> calls \<Rightarrow> response \<times> calls" where
  "person_tv_credits cfg net person_id cs =
     try_catch (fetchFromTmdb cfg net (''/person/'' @ person_id @ ''/tv_credits'') [] cs)
       (\<lambda>data. bind_err (get_prop data ''cast'') (array_map TVShow))
       ''Failed to fetch person TV credits''"

definition person_images :: "config \<Rightarrow> net \<Rightarrow> string \<Rightarrow> calls \<Rightarrow> response \<times> calls" where
  "person_images cfg net person_id cs =
     try_catch (fetchFromTmdb cfg net (''/person/'' @ person_id @ ''/images'') [] cs)
       Inr
       ''Failed to fetch person images''"

definition person_external_ids :: "config \<Rightarrow> net \<Rightarrow> string \<Rightarrow> calls \<Rightarrow> response \<times> calls" where
  "person_external_ids cfg net person_id cs =
     try_catch (fetchFromTmdb cfg net (''/person/'' @ person_id @ ''/external_ids'') [] cs)
       Inr
       ''Failed to fetch external IDs''"

definition person_details :: "config \<Rightarrow> net \<Rightarrow> string \<Rightarrow> calls \<Rightarrow> response \<times> calls" where
  "person_details cfg net person_id cs =
     try_catch (fetchFromTmdb cfg net (''/person/'' @ person_id) [] cs)
       Person
       ''Failed to fetch person details''"

section \<open>The key check of the server on port 3001\<close>

text \<open>
  This handler calls \<open>axios.get\<close> itself, on the base URL as configured, and answers
  with \<open>res.send\<close>, a text body.
\<close>

definition app_validate :: "config \<Rightarrow> net \<Rightarrow> calls \<Rightarrow> response \<times> calls" where
  "app_validate cfg net cs =
     (case axios_get net (TMDB_BASE_URL cfg @ ''/configuration'')
             [(''api_key'', JStr (TMDB_API_KEY cfg))] cs of
        (Inr data, cs') \<Rightarrow> (res_send 200 ''API key is valid.'', cs')
      | (Inl e, cs') \<Rightarrow> (res_send 500 ''API key is invalid or TMDB service is unavailable.'', cs'))"

section \<open>The registered routes\<close>

text \<open>
  One constructor for each handler the four routers and the server register, with the
  path parameter of the matched route. \<open>handle\<close> runs the handler of a route on the
  value of \<open>req.query.query\<close>.
\<close>

datatype route =
    TmdbHealth
  | TmdbAuthValidate
  | TmdbSearchCollection
  | TmdbSearchCompany
  | TmdbSearchMulti
  | TmdbSearchKeyword
  | MovieHealth
  | MovieImages string
  | MovieCredits string
  | MovieExternalIds string
  | MovieRecommendations string
  | MovieReviews string
  | MovieSimilar string
  | MovieVideos string
  | MovieWatchProviders string
  | MovieSearch
  | MoviePopular
  | MovieNowPlaying
  | MovieTopRated
  | MovieUpcoming
  | MovieDetails string
  | TvHealth
  | TvPopular
  | TvLatest
  | TvAiringToday
  | TvOnTheAir
  | TvTopRated
  | TvSearch
  | TvDetails string
  | TvVideos string
  | TvWatchProviders string
  | TvImages string
  | TvCredits string
  | TvReviews string
  | TvRecommendations string
  | TvSimilar string
  | PersonHealth
  | PersonPopular
  | PersonSearch
  | PersonMovieCredits string
  | PersonTvCredits string
  | PersonImages string
  | PersonExternalIds string
  | PersonDetails string
  | AppValidate

fun handle :: "runtime \<Rightarrow> config \<Rightarrow> net \<Rightarrow> route \<Rightarrow> json \<Rightarrow> calls \<Rightarrow> response \<times> calls" where
  "handle rt cfg net TmdbHealth query cs = (tmdb_health, cs)"
| "handle rt cfg net TmdbAuthValidate query cs = tmdb_auth_validate cfg net cs"
| "handle rt cfg net TmdbSearchCollection query cs = tmdb_search_collection cfg net query cs"
| "handle rt cfg net TmdbSearchCompany query cs = tmdb_search_company cfg net query cs"
| "handle rt cfg net TmdbSearchMulti query cs = tmdb_search_multi cfg net query cs"
| "handle rt cfg net TmdbSearchKeyword query cs = tmdb_search_keyword cfg net query cs"
| "handle rt cfg net MovieHealth query cs = (movie_health, cs)"
| "handle rt cfg net (MovieImages i) query cs = movie_images cfg net i cs"
| "handle rt cfg net (MovieCredits i) query cs = movie_credits cfg net i cs"
| "handle rt cfg net (MovieExternalIds i) query cs = movie_external_ids cfg net i cs"
| "handle rt cfg net (MovieRecommendations i) query cs = movie_recommendations cfg net i cs"
| "handle rt cfg net (MovieReviews i) query cs = movie_reviews cfg net i cs"
| "handle rt cfg net (MovieSimilar i) query cs = movie_similar cfg net i cs"
| "handle rt cfg net (MovieVideos i) query cs = movie_videos cfg net i cs"
| "handle rt cfg net (MovieWatchProviders i) query cs = movie_watch_providers cfg net i cs"
| "handle rt cfg net MovieSearch query cs = movie_search cfg net query cs"
| "handle rt cfg net MoviePopular query cs = movie_popular cfg net cs"
| "handle rt cfg net MovieNowPlaying query cs = movie_now_playing cfg net cs"
| "handle rt cfg net MovieTopRated query cs = movie_top_rated cfg net cs"
| "handle rt cfg net MovieUpcoming query cs = movie_upcoming cfg net cs"
| "handle rt cfg net (MovieDetails i) query cs = movie_details rt cfg net i cs"
| "handle rt cfg net TvHealth query cs = (tv_health, cs)"
| "handle rt cfg net TvPopular query cs = tv_popular cfg net cs"
| "handle rt cfg net TvLatest query cs = tv_latest cfg net cs"
| "handle rt cfg net TvAiringToday query cs = tv_airing_today cfg net cs"
| "handle rt cfg net TvOnTheAir query cs = tv_on_the_air cfg net cs"
| "handle rt cfg net TvTopRated query cs = tv_top_rated cfg net cs"
| "handle rt cfg net TvSearch query cs = tv_search rt cfg net query cs"
| "handle rt cfg net (TvDetails i) query cs = tv_details cfg net i cs"
| "handle rt cfg net (TvVideos i) query cs = tv_videos cfg net i cs"
| "handle rt cfg net (TvWatchProviders i) query cs = tv_watch_providers cfg net i cs"
| "handle rt cfg net (TvImages i) query cs = tv_images cfg net i cs"
| "handle rt cfg net (TvCredits i) query cs = tv_credits cfg net i cs"
| "handle rt cfg net (TvReviews i) query cs = tv_reviews cfg net i cs"
| "handle rt cfg net (TvRecommendations i) query cs = tv_recommendations cfg net i cs"
| "handle rt cfg net (TvSimilar i) query cs = tv_similar cfg net i cs"
| "handle rt cfg net PersonHealth query cs = (person_health, cs)"
| "handle rt cfg net PersonPopular query cs = person_popular cfg net cs"
| "handle rt cfg net PersonSearch query cs = person_search rt cfg net query cs"
| "handle rt cfg net (PersonMovieCredits i) query cs = person_movie_credits cfg net i cs"
| "handle rt cfg net (PersonTvCredits i) query cs = person_tv_credits cfg net i cs"
| "handle rt cfg net (PersonImages i) query cs = person_images cfg net i cs"
| "handle rt cfg net (PersonExternalIds i) query cs = person_external_ids cfg net i cs"
| "handle rt cfg net (PersonDetails i) query cs = person_details cfg net i cs"
| "handle rt cfg net AppValidate query cs = app_validate cfg net cs"

text \<open>
  The message each \<open>catch\<close> block puts under \<open>error\<close>, read off the handlers: a
  literal, or in the TV routes with a path parameter a literal followed by the
  parameter. The health routes have no \<open>catch\<close> block and the two key checks answer
  otherwise; they are given the empty message.
\<close>

fun catch_message :: "route \<Rightarrow> string" where
  "catch_message TmdbHealth = []"
| "catch_message TmdbAuthValidate = []"
| "catch_message TmdbSearchCollection = ''Failed to fetch collections''"
| "catch_message TmdbSearchCompany = ''Failed to fetch companies''"
| "catch_message TmdbSearchMulti = ''Failed to fetch multi-search results''"
| "catch_message TmdbSearchKeyword = ''Failed to fetch keywords''"
| "catch_message MovieHealth = []"
| "catch_message (MovieImages i) = ''Failed to fetch movie images''"
| "catch_message (MovieCredits i) = ''Failed to fetch movie credits''"
| "catch_message (MovieExternalIds i) = ''Failed to fetch movie external IDs''"
| "catch_message (MovieRecommendations i) = ''Failed to fetch movie recommendations''"
| "catch_message (MovieReviews i) = ''Failed to fetch movie reviews''"
| "catch_message (MovieSimilar i) = ''Failed to fetch similar movies''"
| "catch_message (MovieVideos i) = ''Failed to fetch movie videos''"
| "catch_message (MovieWatchProviders i) = ''Failed to fetch movie watch providers''"
| "catch_message MovieSearch = ''Failed to search movies''"
| "catch_message MoviePopular = ''Failed to fetch popular movies''"
| "catch_message MovieNowPlaying = ''Failed to fetch now playing movies''"
| "catch_message MovieTopRated = ''Failed to fetch top-rated movies''"
| "catch_message MovieUpcoming = ''Failed to fetch upcoming movies''"
| "catch_message (MovieDetails i) = ''Failed to fetch movie details''"
| "catch_message TvHealth = []"
| "catch_message TvPopular = ''Failed to fetch popular TV shows''"
| "catch_message TvLatest = ''Failed to fetch latest TV show''"
| "catch_message TvAiringToday = ''Failed to fetch airing today TV shows''"
| "catch_message TvOnTheAir = ''Failed to fetch TV shows on the air''"
| "catch_message TvTopRated = ''Failed to fetch top-rated TV shows''"
| "catch_message TvSearch = ''Failed to search TV shows''"
| "catch_message (TvDetails i) = ''Failed to fetch TV show with id '' @ i"
| "catch_message (TvVideos i) = ''Failed to fetch videos for TV show with id '' @ i"
| "catch_message (TvWatchProviders i) = ''Failed to fetch watch providers for TV show with id '' @ i"
| "catch_message (TvImages i) = ''Failed to fetch images for TV show with id '' @ i"
| "catch_message (TvCredits i) = ''Failed to fetch credits for TV show with id '' @ i"
| "catch_message (TvReviews i) = ''Failed to fetch reviews for TV show with id '' @ i"
| "catch_message (TvRecommendations i) = ''Failed to fetch recommendations for TV show with id '' @ i"
| "catch_message (TvSimilar i) = ''Failed to fetch similar TV shows for id '' @ i"
| "catch_message PersonHealth = []"
| "catch_message PersonPopular = ''Failed to fetch popular persons''"
| "catch_message PersonSearch = ''Failed to perform search''"
| "catch_message (PersonMovieCredits i) = ''Failed to fetch person movie credits''"
| "catch_message (PersonTvCredits i) = ''Failed to fetch person TV credits''"
| "catch_message (PersonImages i) = ''Failed to fetch person images''"
| "catch_message (PersonExternalIds i) = ''Failed to fetch external IDs''"
| "catch_message (PersonDetails i) = ''Failed to fetch person details''"
| "catch_message AppValidate = []"

text \<open>Fixtures for the concrete instances below.\<close>

definition example_config :: config where
  "example_config = \<lparr>TMDB_API_KEY = ''k'', TMDB_BASE_URL = ''https://api.themoviedb.org/3''\<rparr>"

definition example_runtime :: runtime where
  "example_runtime =
     \<lparr>number_template = (\<lambda>s. s), number_to_string = (\<lambda>n. ''0''), encodeURIComponent = Inr\<rparr>"

definition net_down :: net where
  "net_down url params = Inl (UpstreamError ''connect ECONNREFUSED'')"

definition net_const :: "json \<Rightarrow> net" where
  "net_const v url params = Inr v"

section \<open>Field tables\<close>

text \<open>
  The plain copies \<open>this.f = data.k\<close> of each constructor, as pairs (instance field,
  raw key), and the property names of each instance in the order of assignment.
\<close>

definition Media_fields :: "(string \<times> string) list" where
  "Media_fields =
     [(''id'', ''id''), (''popularity'', ''popularity''), (''overview'', ''overview''),
      (''posterPath'', ''poster_path''), (''backdropPath'', ''backdrop_path'')]"

definition Movie_fields :: "(string \<times> string) list" where
  "Movie_fields = Media_fields @
     [(''title'', ''title''), (''originalTitle'', ''original_title''),
      (''releaseDate'', ''release_date''), (''genreIds'', ''genre_ids''),
      (''voteAverage'', ''vote_average''), (''voteCount'', ''vote_count'')]"

definition TVShow_fields :: "(string \<times> string) list" where
  "TVShow_fields = Media_fields @
     [(''name'', ''name''), (''originalName'', ''original_name''),
      (''firstAirDate'', ''first_air_date''), (''genreIds'', ''genre_ids''),
      (''voteAverage'', ''vote_average''), (''voteCount'', ''vote_count'')]"

definition Person_fields :: "(string \<times> string) list" where
  "Person_fields = Media_fields @
     [(''name'', ''name''), (''knownFor'', ''known_for''), (''gender'', ''gender''),
      (''knownForDepartment'', ''known_for_department'')]"

definition Review_fields :: "(string \<times> string) list" where
  "Review_fields =
     [(''author'', ''author''), (''content'', ''content''), (''created'', ''created_at''),
      (''updated'', ''updated_at'')]"

definition Movie_keys :: "string list" where
  "Movie_keys =
     [''id'', ''mediaType'', ''popularity'', ''overview'', ''posterPath'', ''backdropPath'',
      ''title'', ''originalTitle'', ''releaseDate'', ''genreIds'', ''voteAverage'', ''voteCount'']"

definition TVShow_keys :: "string list" where
  "TVShow_keys =
     [''id'', ''mediaType'', ''popularity'', ''overview'', ''posterPath'', ''backdropPath'',
      ''name'', ''originalName'', ''firstAirDate'', ''genreIds'', ''voteAverage'', ''voteCount'']"

definition Person_keys :: "string list" where
  "Person_keys =
     [''id'', ''mediaType'', ''popularity'', ''overview'', ''posterPath'', ''backdropPath'',
      ''name'', ''knownFor'', ''gender'', ''knownForDepartment'']"

definition Review_keys :: "string list" where
  "Review_keys = [''author'', ''content'', ''created'', ''updated'', ''rating'']"

text \<open>
  The replies of an ordinary handler: a success, or a 400 or 500 whose body is an
  object with the single property \<open>error\<close>, a string.
\<close>

definition json_reply :: "response \<Rightarrow> bool" where
  "json_reply r =
     (status r = 200 \<or>
      ((status r = 400 \<or> status r = 500) \<and> (\<exists>msg. body r = Json (error_body msg))))"

section \<open>Properties of the constructors\<close>

lemma bind_err_Inr [simp]: "bind_err (Inr v) f = f v"
  by (simp add: bind_err_def)

lemma bind_err_Inl [simp]: "bind_err (Inl e) f = Inl e"
  by (simp add: bind_err_def)

lemma assign_Inr [simp]: "assign this k (Inr v) = Inr (set_prop this k v)"
  by (simp add: assign_def)

lemma assign_Inl [simp]: "assign this k (Inl e) = Inl e"
  by (simp add: assign_def)

lemma Media_JObj:
  "Media (JObj kvs) [] = Inr
     [(''id'', field kvs ''id''),
      (''mediaType'', js_or (field kvs ''media_type'') (JStr ''unknown'')),
      (''popularity'', field kvs ''popularity''),
      (''overview'', field kvs ''overview''),
      (''posterPath'', field kvs ''poster_path''),
      (''backdropPath'', field kvs ''backdrop_path'')]"
  by (simp add: Media_def)

lemma Movie_JObj:
  "Movie (JObj kvs) = Inr (JObj
     [(''id'', field kvs ''id''),
      (''mediaType'', JStr ''Movie''),
      (''popularity'', field kvs ''popularity''),
      (''overview'', field kvs ''overview''),
      (''posterPath'', field kvs ''poster_path''),
      (''backdropPath'', field kvs ''backdrop_path''),
      (''title'', field kvs ''title''),
      (''originalTitle'', field kvs ''original_title''),
      (''releaseDate'', field kvs ''release_date''),
      (''genreIds'', field kvs ''genre_ids''),
      (''voteAverage'', field kvs ''vote_average''),
      (''voteCount'', field kvs ''vote_count'')])"
  by (simp add: Movie_def Movie_body_def Media_JObj)

lemma TVShow_JObj:
  "TVShow (JObj kvs) = Inr (JObj
     [(''id'', field kvs ''id''),
      (''mediaType'', JStr ''TVShow''),
      (''popularity'', field kvs ''popularity''),
      (''overview'', field kvs ''overview''),
      (''posterPath'', field kvs ''poster_path''),
      (''backdropPath'', field kvs ''backdrop_path''),
      (''name'', field kvs ''name''),
      (''originalName'', field kvs ''original_name''),
      (''firstAirDate'', field kvs ''first_air_date''),
      (''genreIds'', field kvs ''genre_ids''),
      (''voteAverage'', field kvs ''vote_average''),
      (''voteCount'', field kvs ''vote_count'')])"
  by (simp add: TVShow_def TVShow_body_def Media_JObj)

lemma Person_JObj:
  "Person (JObj kvs) = Inr (JObj
     [(''id'', field kvs ''id''),
      (''mediaType'', JStr ''Person''),
      (''popularity'', field kvs ''popularity''),
      (''overview'', field kvs ''overview''),
      (''posterPath'', field kvs ''poster_path''),
      (''backdropPath'', field kvs ''backdrop_path''),
      (''name'', field kvs ''name''),
      (''knownFor'', field kvs ''known_for''),
      (''gender'', field kvs ''gender''),
      (''knownForDepartment'', field kvs ''known_for_department'')])"
  by (simp add: Person_def Person_body_def Media_JObj)

text \<open>
  C1. For every raw object, the Movie constructor yields an instance whose
  \<open>mediaType\<close> is \<open>"Movie"\<close>, whatever \<open>media_type\<close> the raw object carries; likewise
  \<open>"TVShow"\<close> for TVShow and \<open>"Person"\<close> for Person.
\<close>

theorem mediaType_set_by_constructor:
  "(\<exists>this. Movie (JObj kvs) = Inr (JObj this) \<and> map_of this ''mediaType'' = Some (JStr ''Movie''))
   \<and> (\<exists>this. TVShow (JObj kvs) = Inr (JObj this) \<and> map_of this ''mediaType'' = Some (JStr ''TVShow''))
   \<and> (\<exists>this. Person (JObj kvs) = Inr (JObj this) \<and> map_of this ''mediaType'' = Some (JStr ''Person''))"
  by (simp add: Movie_JObj TVShow_JObj Person_JObj)

lemma field_absent: "map_of kvs k = None \<Longrightarrow> field kvs k = JUndefined"
  by (simp add: field_def)

lemma Review_JObj:
  "Review (JObj kvs) =
     bind_err (get_prop (field kvs ''author_details'') ''rating'') (\<lambda>r. Inr (JObj
       [(''author'', field kvs ''author''),
        (''content'', field kvs ''content''),
        (''created'', field kvs ''created_at''),
        (''updated'', field kvs ''updated_at''),
        (''rating'', js_or r (JNum 0))]))"
  by (cases "get_prop (field kvs ''author_details'') ''rating''")
     (simp_all add: Review_def Review_body_def)

lemma get_prop_nullish:
  "d = JUndefined \<or> d = JNull \<Longrightarrow> get_prop d k = Inl TypeError"
  by auto

lemma get_prop_defined:
  "d \<noteq> JUndefined \<Longrightarrow> d \<noteq> JNull \<Longrightarrow> \<exists>v. get_prop d k = Inr v"
  by (cases d) simp_all

lemma Movie_copies:
  "\<exists>this. Movie (JObj kvs) = Inr (JObj this) \<and> map fst this = Movie_keys
      \<and> (\<forall>(dst, src)\<in>set Movie_fields. map_of this dst = Some (field kvs src))"
  by (simp add: Movie_JObj Movie_fields_def Media_fields_def Movie_keys_def)

lemma TVShow_copies:
  "\<exists>this. TVShow (JObj kvs) = Inr (JObj this) \<and> map fst this = TVShow_keys
      \<and> (\<forall>(dst, src)\<in>set TVShow_fields. map_of this dst = Some (field kvs src))"
  by (simp add: TVShow_JObj TVShow_fields_def Media_fields_def TVShow_keys_def)

lemma Person_copies:
  "\<exists>this. Person (JObj kvs) = Inr (JObj this) \<and> map fst this = Person_keys
      \<and> (\<forall>(dst, src)\<in>set Person_fields. map_of this dst = Some (field kvs src))"
  by (simp add: Person_JObj Person_fields_def Media_fields_def Person_keys_def)

lemma Review_copies:
  assumes "field kvs ''author_details'' \<noteq> JUndefined" "field kvs ''author_details'' \<noteq> JNull"
  shows "\<exists>this. Review (JObj kvs) = Inr (JObj this) \<and> map fst this = Review_keys
      \<and> (\<forall>(dst, src)\<in>set Review_fields. map_of this dst = Some (field kvs src))"
proof -
  obtain r where "get_prop (field kvs ''author_details'') ''rating'' = Inr r"
    using get_prop_defined [OF assms] by blast
  then show ?thesis
    by (simp add: Review_JObj Review_fields_def Review_keys_def)
qed

lemma Review_throws:
  assumes "field kvs ''author_details'' = JUndefined \<or> field kvs ''author_details'' = JNull"
  shows "Review (JObj kvs) = Inl TypeError"
  using get_prop_nullish [OF assms, of "''rating''"] by (simp add: Review_JObj)

text \<open>
  C2, as stated, at a raw review without \<open>author_details\<close>: reading \<open>rating\<close> of
  \<open>undefined\<close> raises, so no record is produced.
\<close>

theorem Review_rating_counterexample:
  "Review (JObj [(''author'', JStr ''a''), (''content'', JStr ''c'')]) = Inl TypeError"
  by (simp add: Review_JObj field_def)

text \<open>
  C2, amended. For every raw object whose \<open>author_details\<close> is an object without a
  \<open>rating\<close>, the Review constructor produces a record whose \<open>rating\<close> is 0.
\<close>

theorem Review_rating_default:
  assumes "field kvs ''author_details'' = JObj details"
    and "map_of details ''rating'' = None"
  shows "\<exists>this. Review (JObj kvs) = Inr (JObj this) \<and> map_of this ''rating'' = Some (JNum 0)"
  using assms by (simp add: Review_JObj field_def js_or_def)

theorem Review_rating_default_witness:
  "\<exists>this. Review (JObj [(''author'', JStr ''a''), (''author_details'', JObj [(''name'', JStr ''n'')])])
            = Inr (JObj this) \<and> map_of this ''rating'' = Some (JNum 0)"
  using Review_rating_default [of "[(''author'', JStr ''a''), (''author_details'', JObj [(''name'', JStr ''n'')])]"
      "[(''name'', JStr ''n'')]"]
  by (simp add: field_def)

text \<open>
  C3, as stated, at a raw review whose \<open>author_details\<close> is \<open>null\<close>: the Review
  constructor raises.
\<close>

theorem constructors_counterexample:
  "Review (JObj [(''author_details'', JNull)]) = Inl TypeError"
  by (simp add: Review_JObj field_def)

text \<open>
  C3, amended. For every raw object the Movie, TVShow and Person constructors return
  an instance, and every field copied from a key the raw object lacks is \<open>undefined\<close>.
  The Review constructor does the same when \<open>author_details\<close> is neither absent nor
  \<open>null\<close>, and raises a TypeError otherwise.
\<close>

theorem constructors_total:
  "(\<exists>this. Movie (JObj kvs) = Inr (JObj this)
       \<and> (\<forall>(dst, src)\<in>set Movie_fields. map_of kvs src = None \<longrightarrow> map_of this dst = Some JUndefined))
   \<and> (\<exists>this. TVShow (JObj kvs) = Inr (JObj this)
       \<and> (\<forall>(dst, src)\<in>set TVShow_fields. map_of kvs src = None \<longrightarrow> map_of this dst = Some JUndefined))
   \<and> (\<exists>this. Person (JObj kvs) = Inr (JObj this)
       \<and> (\<forall>(dst, src)\<in>set Person_fields. map_of kvs src = None \<longrightarrow> map_of this dst = Some JUndefined))
   \<and> (field kvs ''author_details'' \<noteq> JUndefined \<and> field kvs ''author_details'' \<noteq> JNull \<longrightarrow>
        (\<exists>this. Review (JObj kvs) = Inr (JObj this)
         \<and> (\<forall>(dst, src)\<in>set Review_fields. map_of kvs src = None \<longrightarrow> map_of this dst = Some JUndefined)))
   \<and> (field kvs ''author_details'' = JUndefined \<or> field kvs ''author_details'' = JNull \<longrightarrow>
        Review (JObj kvs) = Inl TypeError)"
proof (intro conjI impI)
  show "\<exists>this. Movie (JObj kvs) = Inr (JObj this)
       \<and> (\<forall>(dst, src)\<in>set Movie_fields. map_of kvs src = None \<longrightarrow> map_of this dst = Some JUndefined)"
    using Movie_copies [of kvs] by (fastforce simp: field_absent)
  show "\<exists>this. TVShow (JObj kvs) = Inr (JObj this)
       \<and> (\<forall>(dst, src)\<in>set TVShow_fields. map_of kvs src = None \<longrightarrow> map_of this dst = Some JUndefined)"
    using TVShow_copies [of kvs] by (fastforce simp: field_absent)
  show "\<exists>this. Person (JObj kvs) = Inr (JObj this)
       \<and> (\<forall>(dst, src)\<in>set Person_fields. map_of kvs src = None \<longrightarrow> map_of this dst = Some JUndefined)"
    using Person_copies [of kvs] by (fastforce simp: field_absent)
next
  assume "field kvs ''author_details'' \<noteq> JUndefined \<and> field kvs ''author_details'' \<noteq> JNull"
  then show "\<exists>this. Review (JObj kvs) = Inr (JObj this)
         \<and> (\<forall>(dst, src)\<in>set Review_fields. map_of kvs src = None \<longrightarrow> map_of this dst = Some JUndefined)"
    using Review_copies [of kvs] by (fastforce simp: field_absent)
next
  assume "field kvs ''author_details'' = JUndefined \<or> field kvs ''author_details'' = JNull"
  then show "Review (JObj kvs) = Inl TypeError" by (rule Review_throws)
qed

theorem constructors_total_witness:
  "(\<exists>this. Movie (JObj [(''id'', JNum 550), (''author_details'', JObj [])]) = Inr (JObj this)
       \<and> map_of this ''id'' = Some (JNum 550) \<and> map_of this ''title'' = Some JUndefined)
   \<and> (\<exists>this. Review (JObj [(''id'', JNum 550), (''author_details'', JObj [])]) = Inr (JObj this)
       \<and> map_of this ''author'' = Some JUndefined)"
  using constructors_total [of "[(''id'', JNum 550), (''author_details'', JObj [])]"]
  by (simp add: Movie_JObj Review_JObj field_def js_or_def)

text \<open>
  C10. For every raw object the property names of the Movie instance are exactly the
  twelve of \<open>Movie_keys\<close>, whatever else the raw object holds; likewise for TVShow and
  Person with their lists, and for every Review instance the constructor returns (it
  returns one whenever \<open>author_details\<close> is neither absent nor \<open>null\<close>).
\<close>

theorem closed_field_sets:
  "(\<exists>this. Movie (JObj kvs) = Inr (JObj this) \<and> map fst this = Movie_keys)
   \<and> (\<exists>this. TVShow (JObj kvs) = Inr (JObj this) \<and> map fst this = TVShow_keys)
   \<and> (\<exists>this. Person (JObj kvs) = Inr (JObj this) \<and> map fst this = Person_keys)
   \<and> (\<forall>v. Review (JObj kvs) = Inr v \<longrightarrow> (\<exists>this. v = JObj this \<and> map fst this = Review_keys))
   \<and> (field kvs ''author_details'' \<noteq> JUndefined \<and> field kvs ''author_details'' \<noteq> JNull \<longrightarrow>
        (\<exists>v. Review (JObj kvs) = Inr v))"
proof (intro conjI allI impI)
  show "\<exists>this. Movie (JObj kvs) = Inr (JObj this) \<and> map fst this = Movie_keys"
    using Movie_copies [of kvs] by blast
  show "\<exists>this. TVShow (JObj kvs) = Inr (JObj this) \<and> map fst this = TVShow_keys"
    using TVShow_copies [of kvs] by blast
  show "\<exists>this. Person (JObj kvs) = Inr (JObj this) \<and> map fst this = Person_keys"
    using Person_copies [of kvs] by blast
next
  fix v
  assume v: "Review (JObj kvs) = Inr v"
  show "\<exists>this. v = JObj this \<and> map fst this = Review_keys"
  proof (cases "field kvs ''author_details'' = JUndefined \<or> field kvs ''author_details'' = JNull")
    case True
    then show ?thesis using Review_throws [of kvs] v by simp
  next
    case False
    then show ?thesis using Review_copies [of kvs] v by auto
  qed
next
  assume "field kvs ''author_details'' \<noteq> JUndefined \<and> field kvs ''author_details'' \<noteq> JNull"
  then show "\<exists>v. Review (JObj kvs) = Inr v"
    using Review_copies [of kvs] by blast
qed

theorem closed_field_sets_witness:
  "(\<exists>this. Movie (JObj [(''id'', JNum 550), (''adult'', JBool False), (''author_details'', JObj [])])
              = Inr (JObj this) \<and> map fst this = Movie_keys \<and> ''adult'' \<notin> set (map fst this))
   \<and> (\<exists>this. Review (JObj [(''id'', JNum 550), (''adult'', JBool False), (''author_details'', JObj [])])
              = Inr (JObj this) \<and> map fst this = Review_keys \<and> ''id'' \<notin> set (map fst this))"
  using closed_field_sets [of "[(''id'', JNum 550), (''adult'', JBool False), (''author_details'', JObj [])]"]
  by (simp add: Movie_JObj Review_JObj field_def js_or_def Movie_keys_def Review_keys_def)

section \<open>Properties of the collection handlers\<close>

lemma js_map_Inr:
  "js_map f xs = Inr ys \<longleftrightarrow>
     length ys = length xs \<and> (\<forall>i<length xs. f (xs ! i) = Inr (ys ! i))"
proof (induction xs arbitrary: ys)
  case Nil
  then show ?case by auto
next
  case (Cons x xs)
  show ?case
  proof (cases "f x")
    case (Inl e)
    then show ?thesis by (cases ys) auto
  next
    case fx: (Inr y)
    show ?thesis
    proof (cases "js_map f xs")
      case (Inl e)
      have "\<not> (length (tl ys) = length xs \<and> (\<forall>i<length xs. f (xs ! i) = Inr (tl ys ! i)))"
        using Cons.IH [of "tl ys"] Inl by simp
      then show ?thesis using fx Inl
        by (cases ys) (auto simp: less_Suc_eq_0_disj)
    next
      case (Inr zs)
      then have zs: "length zs = length xs \<and> (\<forall>i<length xs. f (xs ! i) = Inr (zs ! i))"
        using Cons.IH [of zs] by simp
      show ?thesis
      proof
        assume "js_map f (x # xs) = Inr ys"
        then have "ys = y # zs" using fx Inr by simp
        then show "length ys = length (x # xs) \<and> (\<forall>i<length (x # xs). f ((x # xs) ! i) = Inr (ys ! i))"
          using zs fx by (auto simp: less_Suc_eq_0_disj)
      next
        assume a: "length ys = length (x # xs) \<and> (\<forall>i<length (x # xs). f ((x # xs) ! i) = Inr (ys ! i))"
        then obtain y' ys' where ys: "ys = y' # ys'" by (cases ys) auto
        from a ys have "f x = Inr y'" by auto
        then have y': "y' = y" using fx by simp
        from a ys have "length ys' = length xs \<and> (\<forall>i<length xs. f (xs ! i) = Inr (ys' ! i))"
          by auto
        then have "js_map f xs = Inr ys'" using Cons.IH [of ys'] by simp
        then show "js_map f (x # xs) = Inr ys" using fx ys y' by simp
      qed
    qed
  qed
qed

lemma js_map_total:
  "(\<forall>x\<in>set xs. \<exists>y. f x = Inr y) \<Longrightarrow> \<exists>ys. js_map f xs = Inr ys"
  by (induction xs) auto

lemma results_map_JArr:
  "get_prop data ''results'' = Inr (JArr xs) \<Longrightarrow>
   results_map ctor data = bind_err (js_map ctor xs) (\<lambda>ys. Inr (JArr ys))"
  by (simp add: results_map_def)

lemma multi_item_cases:
  assumes "item \<noteq> JUndefined" "item \<noteq> JNull"
  shows "\<exists>y. multi_item item = Inr y
      \<and> (get_prop item ''media_type'' = Inr (JStr ''movie'') \<longrightarrow> Movie item = Inr y)
      \<and> (get_prop item ''media_type'' = Inr (JStr ''tv'') \<longrightarrow> TVShow item = Inr y)
      \<and> (get_prop item ''media_type'' = Inr (JStr ''person'') \<longrightarrow> Person item = Inr y)
      \<and> (get_prop item ''media_type'' \<notin>
           {Inr (JStr ''movie''), Inr (JStr ''tv''), Inr (JStr ''person'')} \<longrightarrow> y = item)"
  using assms
  by (cases item) (simp_all add: multi_item_def Movie_JObj TVShow_JObj Person_JObj)

text \<open>
  C4. When \<open>data.results\<close> is an array, whatever \<open>data.results.map\<close> returns
  with an element constructor is an array of the same length whose element at each
  index is the constructor's result on the input element at that index; and it does
  return whenever the constructor returns on every element.
\<close>

theorem results_map_elementwise:
  assumes "get_prop data ''results'' = Inr (JArr xs)"
  shows "(\<forall>out. results_map ctor data = Inr out \<longrightarrow>
            (\<exists>ys. out = JArr ys \<and> length ys = length xs
                  \<and> (\<forall>i<length xs. ctor (xs ! i) = Inr (ys ! i))))
       \<and> ((\<forall>x\<in>set xs. \<exists>y. ctor x = Inr y) \<longrightarrow> (\<exists>out. results_map ctor data = Inr out))"
proof (intro conjI allI impI)
  fix out
  assume "results_map ctor data = Inr out"
  then have b: "bind_err (js_map ctor xs) (\<lambda>ys. Inr (JArr ys)) = Inr out"
    using assms by (simp add: results_map_JArr)
  then obtain ys where ys: "js_map ctor xs = Inr ys" and out: "out = JArr ys"
    by (cases "js_map ctor xs") auto
  from ys have "length ys = length xs \<and> (\<forall>i<length xs. ctor (xs ! i) = Inr (ys ! i))"
    by (simp add: js_map_Inr)
  with out show "\<exists>ys. out = JArr ys \<and> length ys = length xs
                  \<and> (\<forall>i<length xs. ctor (xs ! i) = Inr (ys ! i))"
    by blast
next
  assume "\<forall>x\<in>set xs. \<exists>y. ctor x = Inr y"
  then obtain ys where "js_map ctor xs = Inr ys"
    using js_map_total by blast
  then show "\<exists>out. results_map ctor data = Inr out"
    using assms by (simp add: results_map_JArr)
qed

theorem results_map_elementwise_witness:
  "\<exists>ys. results_map Movie (JObj [(''page'', JNum 1),
            (''results'', JArr [JObj [(''id'', JNum 2)], JObj [(''id'', JNum 1)], JObj [(''id'', JNum 2)]])])
          = Inr (JArr ys)
       \<and> length ys = 3
       \<and> Movie (JObj [(''id'', JNum 2)]) = Inr (ys ! 0)
       \<and> Movie (JObj [(''id'', JNum 1)]) = Inr (ys ! 1)
       \<and> Movie (JObj [(''id'', JNum 2)]) = Inr (ys ! 2)"
  using results_map_elementwise [of
      "JObj [(''page'', JNum 1),
            (''results'', JArr [JObj [(''id'', JNum 2)], JObj [(''id'', JNum 1)], JObj [(''id'', JNum 2)]])]"
      "[JObj [(''id'', JNum 2)], JObj [(''id'', JNum 1)], JObj [(''id'', JNum 2)]]" Movie]
  by (simp add: results_map_def Movie_JObj field_def)

section \<open>Properties of the handlers\<close>

lemma fetchFromTmdb_fst:
  "fst (fetchFromTmdb cfg net endpoint params cs) =
     net (tmdbBaseUrl cfg @ normalized_endpoint endpoint)
         (spread [(''api_key'', JStr (TMDB_API_KEY cfg))] params)"
  by (simp add: fetchFromTmdb_def axios_get_def Let_def)

lemma fetchFromTmdb_snd:
  "snd (fetchFromTmdb cfg net endpoint params cs) =
     cs @ [(tmdbBaseUrl cfg @ normalized_endpoint endpoint,
            spread [(''api_key'', JStr (TMDB_API_KEY cfg))] params)]"
  by (simp add: fetchFromTmdb_def axios_get_def Let_def)

lemma try_catch_200:
  "bind_err (fst fetched) shape = Inr out \<Longrightarrow>
   try_catch fetched shape msg = (res_json 200 out, snd fetched)"
  by (simp add: try_catch_def)

lemma try_catch_500:
  "bind_err (fst fetched) shape = Inl e \<Longrightarrow>
   try_catch fetched shape msg = (res_json 500 (error_body msg), snd fetched)"
  by (simp add: try_catch_def)

text \<open>
  C5. When the results of a multi-search hold no \<open>null\<close>, the handler answers 200
  with a list of the same length in which, position by position, an item tagged
  \<open>movie\<close> is its Movie instance, \<open>tv\<close> its TVShow instance, \<open>person\<close> its Person
  instance, and an item with any other tag, or none, is the raw item itself.
\<close>

theorem multi_search_dispatch:
  assumes "get_prop data ''results'' = Inr (JArr items)"
    and "\<forall>x\<in>set items. x \<noteq> JUndefined \<and> x \<noteq> JNull"
  shows "\<exists>out. results_map multi_item data = Inr (JArr out)
      \<and> fst (tmdb_search_multi cfg (net_const data) query cs)
          = res_json 200 (JObj [(''searchResults'', JArr out)])
      \<and> length out = length items
      \<and> (\<forall>i<length items.
            (get_prop (items ! i) ''media_type'' = Inr (JStr ''movie'') \<longrightarrow>
               Movie (items ! i) = Inr (out ! i))
          \<and> (get_prop (items ! i) ''media_type'' = Inr (JStr ''tv'') \<longrightarrow>
               TVShow (items ! i) = Inr (out ! i))
          \<and> (get_prop (items ! i) ''media_type'' = Inr (JStr ''person'') \<longrightarrow>
               Person (items ! i) = Inr (out ! i))
          \<and> (get_prop (items ! i) ''media_type'' \<notin>
               {Inr (JStr ''movie''), Inr (JStr ''tv''), Inr (JStr ''person'')} \<longrightarrow>
               out ! i = items ! i))"
proof -
  have "\<forall>x\<in>set items. \<exists>y. multi_item x = Inr y"
    using assms(2) multi_item_cases by blast
  then obtain out where out: "js_map multi_item items = Inr out"
    using js_map_total by blast
  then have len: "length out = length items"
    and nth: "\<And>i. i < length items \<Longrightarrow> multi_item (items ! i) = Inr (out ! i)"
    by (simp_all add: js_map_Inr)
  have rm: "results_map multi_item data = Inr (JArr out)"
    using assms(1) out by (simp add: results_map_JArr)
  have h: "fst (tmdb_search_multi cfg (net_const data) query cs)
          = res_json 200 (JObj [(''searchResults'', JArr out)])"
    unfolding tmdb_search_multi_def
    by (subst try_catch_200 [where out = "JObj [(''searchResults'', JArr out)]"])
       (simp_all add: fetchFromTmdb_fst net_const_def rm)
  have each: "(get_prop (items ! i) ''media_type'' = Inr (JStr ''movie'') \<longrightarrow>
               Movie (items ! i) = Inr (out ! i))
          \<and> (get_prop (items ! i) ''media_type'' = Inr (JStr ''tv'') \<longrightarrow>
               TVShow (items ! i) = Inr (out ! i))
          \<and> (get_prop (items ! i) ''media_type'' = Inr (JStr ''person'') \<longrightarrow>
               Person (items ! i) = Inr (out ! i))
          \<and> (get_prop (items ! i) ''media_type'' \<notin>
               {Inr (JStr ''movie''), Inr (JStr ''tv''), Inr (JStr ''person'')} \<longrightarrow>
               out ! i = items ! i)" if i: "i < length items" for i
  proof -
    have "items ! i \<in> set items" using i by simp
    then have "items ! i \<noteq> JUndefined" "items ! i \<noteq> JNull" using assms(2) by auto
    then show ?thesis
      using multi_item_cases [of "items ! i"] nth [OF i] by auto
  qed
  show ?thesis
    using rm h len each by blast
qed

theorem multi_search_dispatch_witness:
  "\<exists>m t p. Movie (JObj [(''media_type'', JStr ''movie''), (''id'', JNum 1)]) = Inr m
     \<and> TVShow (JObj [(''media_type'', JStr ''tv''), (''id'', JNum 2)]) = Inr t
     \<and> Person (JObj [(''media_type'', JStr ''person''), (''id'', JNum 3)]) = Inr p
     \<and> results_map multi_item (JObj [(''results'', JArr
          [JObj [(''media_type'', JStr ''movie''), (''id'', JNum 1)],
           JObj [(''media_type'', JStr ''tv''), (''id'', JNum 2)],
           JObj [(''media_type'', JStr ''person''), (''id'', JNum 3)],
           JObj [(''media_type'', JStr ''x''), (''id'', JNum 4)]])])
        = Inr (JArr [m, t, p, JObj [(''media_type'', JStr ''x''), (''id'', JNum 4)]])"
  using multi_search_dispatch [of
      "JObj [(''results'', JArr
          [JObj [(''media_type'', JStr ''movie''), (''id'', JNum 1)],
           JObj [(''media_type'', JStr ''tv''), (''id'', JNum 2)],
           JObj [(''media_type'', JStr ''person''), (''id'', JNum 3)],
           JObj [(''media_type'', JStr ''x''), (''id'', JNum 4)]])]"
      "[JObj [(''media_type'', JStr ''movie''), (''id'', JNum 1)],
           JObj [(''media_type'', JStr ''tv''), (''id'', JNum 2)],
           JObj [(''media_type'', JStr ''person''), (''id'', JNum 3)],
           JObj [(''media_type'', JStr ''x''), (''id'', JNum 4)]]"]
  by (simp add: results_map_def multi_item_def Movie_JObj TVShow_JObj Person_JObj field_def)

text \<open>
  C6. With \<open>query\<close> missing or empty, the movie search and the TV search answer
  400 with an \<open>error\<close> body and the list of upstream requests is unchanged.
\<close>

theorem search_requires_query:
  assumes "query = JUndefined \<or> query = JStr []"
  shows "movie_search cfg net query cs
           = (res_json 400 (error_body ''Query parameter is required''), cs)
       \<and> tv_search rt cfg net query cs
           = (res_json 400 (error_body ''Query parameter is required''), cs)"
  using assms by (auto simp: movie_search_def tv_search_def)

theorem search_requires_query_witness:
  "movie_search example_config (net_const JNull) (JStr []) [] =
     (\<lparr>status = 400, body = Json (JObj [(''error'', JStr ''Query parameter is required'')])\<rparr>, [])
   \<and> tv_search example_runtime example_config (net_const JNull) JUndefined [] =
     (\<lparr>status = 400, body = Json (JObj [(''error'', JStr ''Query parameter is required'')])\<rparr>, [])"
  using search_requires_query [of "JStr []" example_config "net_const JNull" "[]"]
        search_requires_query [of JUndefined example_config "net_const JNull" "[]" example_runtime]
  by (simp add: res_json_def error_body_def)

section \<open>Properties of the upstream client\<close>

lemma map_of_set_prop: "map_of (set_prop ps k v) = (map_of ps)(k \<mapsto> v)"
  by (induction ps) (auto simp: fun_eq_iff)

lemma keys_set_prop:
  "map fst (set_prop ps k v) = (if k \<in> set (map fst ps) then map fst ps else map fst ps @ [k])"
  by (induction ps) auto

lemma set_prop_new: "k \<notin> set (map fst ps) \<Longrightarrow> set_prop ps k v = ps @ [(k, v)]"
  by (induction ps) auto

lemma assign_all_Nil: "assign_all target [] = target"
  by (simp add: assign_all_def)

lemma assign_all_Cons: "assign_all target ((k, v) # src) = assign_all (set_prop target k v) src"
  by (simp add: assign_all_def)

lemma map_of_assign_all:
  "distinct (map fst src) \<Longrightarrow> map_of (assign_all target src) = map_of target ++ map_of src"
proof (induction src arbitrary: target)
  case Nil
  then show ?case by (simp add: assign_all_Nil)
next
  case (Cons p src)
  obtain k v where p: "p = (k, v)" by (cases p)
  from Cons.prems p have k: "k \<notin> dom (map_of src)" and d: "distinct (map fst src)"
    by (auto simp: dom_map_of_conv_image_fst)
  have "map_of (assign_all target (p # src)) = map_of (set_prop target k v) ++ map_of src"
    using Cons.IH [OF d] p by (simp add: assign_all_Cons)
  also have "\<dots> = (map_of target)(k \<mapsto> v) ++ map_of src"
    by (simp only: map_of_set_prop)
  also have "\<dots> = map_of target ++ (map_of src)(k \<mapsto> v)"
    using k by (auto simp: fun_eq_iff map_add_def split: option.splits)
  finally show ?case
    by (simp only: p map_of.simps fst_conv snd_conv)
qed

lemma keys_assign_all:
  "distinct (map fst src) \<Longrightarrow>
   map fst (assign_all target src)
     = map fst target @ filter (\<lambda>k. k \<notin> set (map fst target)) (map fst src)"
proof (induction src arbitrary: target)
  case Nil
  then show ?case by (simp add: assign_all_Nil)
next
  case (Cons p src)
  obtain k v where p: "p = (k, v)" by (cases p)
  from Cons.prems p have k: "k \<notin> set (map fst src)" and d: "distinct (map fst src)"
    by auto
  have f: "filter (\<lambda>x. x \<noteq> k \<and> P x) (map fst src) = filter P (map fst src)" for P
    using k by (induction src) auto
  show ?case
    using Cons.IH [OF d, of "set_prop target k v"] p k
    by (auto simp: assign_all_Cons keys_set_prop f conj_commute)
qed

lemma assign_all_disjoint:
  "distinct (map fst src) \<Longrightarrow> set (map fst target) \<inter> set (map fst src) = {} \<Longrightarrow>
   assign_all target src = target @ src"
proof (induction src arbitrary: target)
  case Nil
  then show ?case by (simp add: assign_all_Nil)
next
  case (Cons p src)
  obtain k v where p: "p = (k, v)" by (cases p)
  from Cons.prems p have k: "k \<notin> set (map fst target)" "k \<notin> set (map fst src)"
    and d: "distinct (map fst src)"
    and i: "set (map fst (target @ [(k, v)])) \<inter> set (map fst src) = {}"
    by auto
  show ?case
    using Cons.IH [OF d i] p k by (simp add: assign_all_Cons set_prop_new)
qed

lemma not_index_api_key: "\<not> is_array_index ''api_key''"
  by (simp add: is_array_index_def array_index_def all_digits_def is_digit_def)

lemma map_fst_insort_key:
  "map fst (insort_key (\<lambda>p. f (fst p)) x xs) = insort_key f (fst x) (map fst xs)"
  by (induction xs) auto

lemma map_fst_sort_key:
  "map fst (sort_key (\<lambda>p. f (fst p)) xs) = sort_key f (map fst xs)"
  by (induction xs) (simp_all add: map_fst_insort_key)

lemma map_fst_filter_key:
  "map fst (filter (\<lambda>p. P (fst p)) xs) = filter P (map fst xs)"
  by (induction xs) auto

lemma keys_own_property_order:
  "map fst (own_property_order created)
     = sort_key index_value (filter is_array_index (map fst created))
       @ filter (\<lambda>k. \<not> is_array_index k) (map fst created)"
  by (simp add: own_property_order_def map_fst_sort_key
      map_fst_filter_key [of is_array_index] map_fst_filter_key [of "\<lambda>k. \<not> is_array_index k"])

lemma map_of_filter_key:
  "map_of (filter (\<lambda>p. P (fst p)) xs) k = (if P k then map_of xs k else None)"
  by (induction xs) auto

lemma map_of_insort_key:
  "fst x \<notin> set (map fst xs) \<Longrightarrow> map_of (insort_key f x xs) = (map_of xs)(fst x \<mapsto> snd x)"
proof (induction xs)
  case Nil
  then show ?case by simp
next
  case (Cons y ys)
  then have "fst y \<noteq> fst x" and "fst x \<notin> set (map fst ys)" by auto
  then show ?case using Cons.IH by (auto simp: fun_upd_twist)
qed

lemma map_of_sort_key:
  "distinct (map fst xs) \<Longrightarrow> map_of (sort_key f xs) = map_of xs"
proof (induction xs)
  case Nil
  then show ?case by simp
next
  case (Cons x xs)
  then have "fst x \<notin> set (map fst (sort_key f xs))" by simp
  then show ?case using Cons by (simp add: map_of_insort_key)
qed

lemma map_of_own_property_order:
  assumes "distinct (map fst created)"
  shows "map_of (own_property_order created) = map_of created"
proof
  fix k
  let ?ix = "filter (\<lambda>p. is_array_index (fst p)) created"
  have d: "distinct (map fst ?ix)"
    using assms by (simp add: distinct_map_filter)
  have "map_of (own_property_order created) k
          = (map_of (filter (\<lambda>p. \<not> is_array_index (fst p)) created) ++ map_of ?ix) k"
    by (simp add: own_property_order_def map_of_sort_key [OF d])
  also have "\<dots> = map_of created k"
    by (simp add: map_add_def map_of_filter_key [of is_array_index]
        map_of_filter_key [of "\<lambda>k. \<not> is_array_index k"] split: option.splits)
  finally show "map_of (own_property_order created) k = map_of created k" .
qed

lemma own_property_order_plain:
  assumes "\<forall>p\<in>set created. \<not> is_array_index (fst p)"
  shows "own_property_order created = created"
proof -
  have "filter (\<lambda>p. is_array_index (fst p)) created = []"
    using assms by (simp add: filter_empty_conv)
  moreover have "filter (\<lambda>p. \<not> is_array_index (fst p)) created = created"
    using assms by (simp add: filter_id_conv)
  ultimately show ?thesis by (simp add: own_property_order_def)
qed

lemma spread_api_key_only: "spread [(''api_key'', v)] [] = [(''api_key'', v)]"
  by (simp add: spread_def assign_all_Nil own_property_order_plain not_index_api_key)

lemmas index_eval =
  own_property_order_def is_array_index_def index_value_def array_index_def all_digits_def
  is_digit_def decimal_value_def digit_value_def

text \<open>
  C7, as stated, at the endpoint \<open>//movie/550\<close>: it begins with a slash, so it is
  appended as it is and the URL requested has two slashes after the base URL. And at
  the caller parameters \<open>{"1": "a"}\<close>: the key \<open>1\<close> is an array index, so the parameter
  object lists it before \<open>api_key\<close>.
\<close>

theorem fetchFromTmdb_counterexample:
  "snd (fetchFromTmdb example_config net_down ''//movie/550'' [] [])
     = [(''https://api.themoviedb.org/3//movie/550'', [(''api_key'', JStr ''k'')])]
   \<and> snd (fetchFromTmdb example_config net_down ''/movie/550'' [(''1'', JStr ''a'')] [])
     = [(''https://api.themoviedb.org/3/movie/550'', [(''1'', JStr ''a''), (''api_key'', JStr ''k'')])]"
  by (simp add: fetchFromTmdb_snd example_config_def tmdbBaseUrl_def endsWith_slash_def
      normalized_endpoint_def startsWith_slash_def spread_def assign_all_def index_eval)

text \<open>
  C7, amended. For every endpoint and every parameter object, the client issues one
  GET to the base URL followed by the endpoint, unchanged when it begins with a slash
  and with one slash put in front otherwise. The parameter object lists the caller's
  keys that are array indices first, in ascending order, then \<open>api_key\<close>, then the
  caller's other keys in their order; when no caller key is an array index or
  \<open>api_key\<close>, it is \<open>api_key\<close> followed by the caller's parameters. Each caller
  parameter has the caller's value, and \<open>api_key\<close> has the configured key unless the
  caller supplies one. The client returns what the GET yields: the parsed body on
  success.
\<close>

theorem fetchFromTmdb_request:
  assumes "distinct (map fst params)"
  shows "\<exists>url fullParams.
       fetchFromTmdb cfg net endpoint params cs
         = (net url fullParams, cs @ [(url, fullParams)])
     \<and> ((\<exists>rest. endpoint = CHR ''/'' # rest) \<longrightarrow> url = tmdbBaseUrl cfg @ endpoint)
     \<and> (\<not> (\<exists>rest. endpoint = CHR ''/'' # rest) \<longrightarrow> url = tmdbBaseUrl cfg @ ''/'' @ endpoint)
     \<and> map fst fullParams
         = sort_key index_value (filter is_array_index (map fst params))
           @ ''api_key''
           # filter (\<lambda>k. k \<noteq> ''api_key'' \<and> \<not> is_array_index k) (map fst params)
     \<and> map_of fullParams = [''api_key'' \<mapsto> JStr (TMDB_API_KEY cfg)] ++ map_of params
     \<and> ((\<forall>k\<in>set (map fst params). k \<noteq> ''api_key'' \<and> \<not> is_array_index k) \<longrightarrow>
          fullParams = (''api_key'', JStr (TMDB_API_KEY cfg)) # params)"
proof -
  let ?url = "tmdbBaseUrl cfg @ normalized_endpoint endpoint"
  let ?key = "[(''api_key'', JStr (TMDB_API_KEY cfg))]"
  let ?created = "assign_all ?key params"
  let ?full = "spread ?key params"
  have keys: "map fst ?created = ''api_key'' # filter (\<lambda>k. k \<noteq> ''api_key'') (map fst params)"
    using keys_assign_all [OF assms, of ?key] by simp
  then have dist: "distinct (map fst ?created)"
    using assms by simp
  have ix: "filter (\<lambda>k. k \<noteq> ''api_key'' \<and> is_array_index k) (map fst params)
              = filter is_array_index (map fst params)"
    by (rule filter_cong) (auto simp: not_index_api_key)
  have 1: "fetchFromTmdb cfg net endpoint params cs = (net ?url ?full, cs @ [(?url, ?full)])"
    by (simp add: fetchFromTmdb_def axios_get_def Let_def)
  have 2: "(\<exists>rest. endpoint = CHR ''/'' # rest) \<longrightarrow> ?url = tmdbBaseUrl cfg @ endpoint"
    by (auto simp: normalized_endpoint_def startsWith_slash_def)
  have 3: "\<not> (\<exists>rest. endpoint = CHR ''/'' # rest) \<longrightarrow> ?url = tmdbBaseUrl cfg @ ''/'' @ endpoint"
    by (cases endpoint) (auto simp: normalized_endpoint_def startsWith_slash_def)
  have 4: "map fst ?full
         = sort_key index_value (filter is_array_index (map fst params))
           @ ''api_key''
           # filter (\<lambda>k. k \<noteq> ''api_key'' \<and> \<not> is_array_index k) (map fst params)"
    by (simp add: spread_def keys_own_property_order keys not_index_api_key ix)
  have 5: "map_of ?full = [''api_key'' \<mapsto> JStr (TMDB_API_KEY cfg)] ++ map_of params"
    using map_of_assign_all [OF assms, of ?key]
    by (simp add: spread_def map_of_own_property_order [OF dist])
  have 6: "(\<forall>k\<in>set (map fst params). k \<noteq> ''api_key'' \<and> \<not> is_array_index k) \<longrightarrow>
          ?full = (''api_key'', JStr (TMDB_API_KEY cfg)) # params"
  proof
    assume a: "\<forall>k\<in>set (map fst params). k \<noteq> ''api_key'' \<and> \<not> is_array_index k"
    then have "set (map fst ?key) \<inter> set (map fst params) = {}" by auto
    then have c: "?created = ?key @ params"
      using assign_all_disjoint [OF assms] by blast
    have "\<forall>p\<in>set (?key @ params). \<not> is_array_index (fst p)"
      using a by (auto simp: not_index_api_key)
    then show "?full = (''api_key'', JStr (TMDB_API_KEY cfg)) # params"
      using c by (simp add: spread_def own_property_order_plain)
  qed
  show ?thesis
    by (rule exI [of _ ?url], rule exI [of _ ?full]) (intro conjI 1 2 3 4 5 6)
qed

theorem fetchFromTmdb_request_witness:
  "fetchFromTmdb example_config (net_const (JObj [(''id'', JNum 550)])) ''movie/550''
       [(''7'', JStr ''s''), (''query'', JStr ''q'')] []
     = (Inr (JObj [(''id'', JNum 550)]),
        [(''https://api.themoviedb.org/3/movie/550'',
          [(''7'', JStr ''s''), (''api_key'', JStr ''k''), (''query'', JStr ''q'')])])"
  using fetchFromTmdb_request [of "[(''7'', JStr ''s''), (''query'', JStr ''q'')]" example_config
      "net_const (JObj [(''id'', JNum 550)])" "''movie/550''" "[]"]
  by (simp add: fetchFromTmdb_def axios_get_def Let_def example_config_def tmdbBaseUrl_def
      endsWith_slash_def normalized_endpoint_def startsWith_slash_def spread_def assign_all_def
      index_eval net_const_def)

lemmas handler_defs =
  tmdb_search_collection_def tmdb_search_company_def tmdb_search_multi_def
  tmdb_search_keyword_def
  movie_images_def movie_credits_def movie_external_ids_def movie_recommendations_def
  movie_reviews_def movie_similar_def movie_videos_def movie_watch_providers_def
  movie_search_def movie_popular_def movie_now_playing_def movie_top_rated_def
  movie_upcoming_def movie_details_def
  tv_popular_def tv_latest_def tv_airing_today_def tv_on_the_air_def tv_top_rated_def
  tv_search_def tv_details_def tv_videos_def tv_watch_providers_def tv_images_def
  tv_credits_def tv_reviews_def tv_recommendations_def tv_similar_def
  person_popular_def person_search_def person_movie_credits_def person_tv_credits_def
  person_images_def person_external_ids_def person_details_def

lemmas health_defs = tmdb_health_def movie_health_def tv_health_def person_health_def

lemma try_catch_snd: "snd (try_catch fetched shape msg) = snd fetched"
  by (simp add: try_catch_def split: sum.splits)

lemma try_catch_rejected:
  "isl (fst fetched) \<Longrightarrow> fst (try_catch fetched shape msg) = res_json 500 (error_body msg)"
  by (cases "fst fetched") (simp_all add: try_catch_def)

lemma auth_validate_rejected:
  assumes "snd (tmdb_auth_validate cfg net cs) = cs @ [(url, params)]" "isl (net url params)"
  shows "fst (tmdb_auth_validate cfg net cs) = res_json 401 (error_body ''Invalid API Key'')"
proof -
  obtain r cs' where f: "fetchFromTmdb cfg net ''/authentication/token/new'' [] cs = (r, cs')"
    by (cases "fetchFromTmdb cfg net ''/authentication/token/new'' [] cs")
  have s: "snd (tmdb_auth_validate cfg net cs) = cs'"
    using f by (simp add: tmdb_auth_validate_def split: sum.splits)
  have "cs' = cs @ [(tmdbBaseUrl cfg @ normalized_endpoint ''/authentication/token/new'',
            spread [(''api_key'', JStr (TMDB_API_KEY cfg))] [])]"
    using fetchFromTmdb_snd [of cfg net "''/authentication/token/new''" "[]" cs] f by simp
  then have "isl (fst (fetchFromTmdb cfg net ''/authentication/token/new'' [] cs))"
    using assms s by (simp add: fetchFromTmdb_fst)
  then show ?thesis
    using f by (auto simp: tmdb_auth_validate_def split: sum.splits)
qed

lemma app_validate_rejected:
  assumes "snd (app_validate cfg net cs) = cs @ [(url, params)]" "isl (net url params)"
  shows "fst (app_validate cfg net cs)
           = res_send 500 ''API key is invalid or TMDB service is unavailable.''"
  using assms by (auto simp: app_validate_def axios_get_def split: sum.splits)

text \<open>
  C8, as stated, at \<open>GET /auth/validate\<close> with an upstream that rejects: the
  request is issued and the handler answers 401, not 500.
\<close>

theorem upstream_failure_counterexample:
  "tmdb_auth_validate example_config net_down []
     = (\<lparr>status = 401, body = Json (JObj [(''error'', JStr ''Invalid API Key'')])\<rparr>,
        [(''https://api.themoviedb.org/3/authentication/token/new'', [(''api_key'', JStr ''k'')])])"
  by (simp add: tmdb_auth_validate_def fetchFromTmdb_def axios_get_def Let_def net_down_def
      example_config_def tmdbBaseUrl_def endsWith_slash_def normalized_endpoint_def
      startsWith_slash_def spread_api_key_only res_json_def error_body_def)

text \<open>
  C8, amended. When the request a handler issued is rejected, a handler other than
  the two key checks answers 500 with the body \<open>{error: m}\<close>, \<open>m\<close> being its own
  message (a literal, in the TV routes with a \<open>series_id\<close> followed by that
  parameter), whatever the error was. \<open>GET /auth/validate\<close> answers 401 with
  \<open>{error: 'Invalid API Key'}\<close>, and \<open>GET /validate\<close> answers 500 with a text
  body. A handler always returns a response.
\<close>

theorem upstream_failure_response:
  assumes called: "snd (handle rt cfg net route query cs) = cs @ [(url, params)]"
    and rejected: "isl (net url params)"
  shows "fst (handle rt cfg net route query cs) =
     (if route = TmdbAuthValidate then res_json 401 (error_body ''Invalid API Key'')
      else if route = AppValidate
        then res_send 500 ''API key is invalid or TMDB service is unavailable.''
      else res_json 500 (error_body (catch_message route)))"
proof (cases route)
  case TmdbAuthValidate
  then show ?thesis using auth_validate_rejected [of cfg net cs url params] assms by simp
next
  case AppValidate
  then show ?thesis using app_validate_rejected [of cfg net cs url params] assms by simp
next
  case TvSearch
  then show ?thesis
    using assms
    by (auto simp: tv_search_def try_catch_snd fetchFromTmdb_snd try_catch_rejected
        fetchFromTmdb_fst split: if_splits sum.splits)
qed (use assms in \<open>auto simp: handler_defs health_defs validateSeriesId_def
      try_catch_snd fetchFromTmdb_snd try_catch_rejected fetchFromTmdb_fst split: if_splits\<close>)

theorem upstream_failure_response_witness:
  "fst (handle example_runtime example_config net_down (TvDetails ''1399'') JUndefined [])
     = \<lparr>status = 500, body = Json (JObj [(''error'', JStr ''Failed to fetch TV show with id 1399'')])\<rparr>
   \<and> fst (handle example_runtime example_config net_down MoviePopular JUndefined [])
     = \<lparr>status = 500, body = Json (JObj [(''error'', JStr ''Failed to fetch popular movies'')])\<rparr>"
  using upstream_failure_response [of example_runtime example_config net_down "TvDetails ''1399''" JUndefined "[]"
           "''https://api.themoviedb.org/3/tv/1399''" "[(''api_key'', JStr ''k'')]"]
        upstream_failure_response [of example_runtime example_config net_down MoviePopular JUndefined "[]"
           "''https://api.themoviedb.org/3/movie/popular''" "[(''api_key'', JStr ''k'')]"]
  by (simp add: net_down_def tv_details_def movie_popular_def validateSeriesId_def all_digits_def
      is_digit_def try_catch_snd fetchFromTmdb_snd res_json_def error_body_def
      example_config_def tmdbBaseUrl_def endsWith_slash_def normalized_endpoint_def
      startsWith_slash_def spread_api_key_only)

lemma json_reply_try_catch: "json_reply (fst (try_catch fetched shape msg))"
  by (auto simp: try_catch_def json_reply_def res_json_def split: sum.splits)

lemma json_reply_400: "json_reply (res_json 400 (error_body msg))"
  by (auto simp: json_reply_def res_json_def)

lemma json_reply_500: "json_reply (res_json 500 (error_body msg))"
  by (auto simp: json_reply_def res_json_def)

lemma json_reply_health: "json_reply (res_json 200 v)"
  by (simp add: json_reply_def res_json_def)

lemma json_reply_validateSeriesId:
  "json_reply (fst next) \<Longrightarrow> json_reply (fst (validateSeriesId series_id next cs))"
  by (simp add: validateSeriesId_def json_reply_400)

lemma handle_json_reply:
  assumes "route \<noteq> TmdbAuthValidate" "route \<noteq> AppValidate"
  shows "json_reply (fst (handle rt cfg net route query cs))"
proof (cases route)
  case TvSearch
  then show ?thesis
    by (simp add: tv_search_def json_reply_try_catch json_reply_400 json_reply_500
        split: sum.splits)
qed (use assms in \<open>simp_all add: handler_defs health_defs json_reply_try_catch json_reply_400
      json_reply_health json_reply_validateSeriesId\<close>)

lemma auth_validate_replies:
  "fst (tmdb_auth_validate cfg net cs) = res_json 200 (JObj [(''message'', JStr ''API Key is valid'')])
   \<or> fst (tmdb_auth_validate cfg net cs) = res_json 401 (error_body ''Invalid API Key'')"
  by (cases "fetchFromTmdb cfg net ''/authentication/token/new'' [] cs")
     (auto simp: tmdb_auth_validate_def split: sum.splits)

lemma app_validate_replies:
  "fst (app_validate cfg net cs) = res_send 200 ''API key is valid.''
   \<or> fst (app_validate cfg net cs)
       = res_send 500 ''API key is invalid or TMDB service is unavailable.''"
  by (auto simp: app_validate_def axios_get_def split: sum.splits)

text \<open>
  C9, as stated, at the two key checks with an upstream that rejects:
  \<open>GET /auth/validate\<close> answers 401, and the 500 of \<open>GET /validate\<close> carries a text
  body, not an object.
\<close>

theorem error_status_counterexample:
  "status (fst (handle example_runtime example_config net_down TmdbAuthValidate JUndefined [])) = 401
   \<and> body (fst (handle example_runtime example_config net_down AppValidate JUndefined []))
       = Text ''API key is invalid or TMDB service is unavailable.''"
  by (simp add: tmdb_auth_validate_def app_validate_def fetchFromTmdb_def axios_get_def Let_def
      net_down_def res_json_def res_send_def)

text \<open>
  C9, amended. Every response of every handler has status 200, 400, 401 or 500. A 400
  or a 500 carries a body \<open>{error: string}\<close>, except the 500 of \<open>GET /validate\<close>,
  whose body is text; 401 comes from \<open>GET /auth/validate\<close> only, with the body
  \<open>{error: 'Invalid API Key'}\<close>.
\<close>

theorem error_responses:
  "status (fst (handle rt cfg net route query cs)) = 200
   \<or> ((status (fst (handle rt cfg net route query cs)) = 400
        \<or> status (fst (handle rt cfg net route query cs)) = 500)
       \<and> route \<noteq> AppValidate
       \<and> (\<exists>msg. body (fst (handle rt cfg net route query cs)) = Json (error_body msg)))
   \<or> (status (fst (handle rt cfg net route query cs)) = 401
       \<and> route = TmdbAuthValidate
       \<and> body (fst (handle rt cfg net route query cs)) = Json (error_body ''Invalid API Key''))
   \<or> (status (fst (handle rt cfg net route query cs)) = 500
       \<and> route = AppValidate
       \<and> body (fst (handle rt cfg net route query cs))
           = Text ''API key is invalid or TMDB service is unavailable.'')"
proof -
  consider (auth) "route = TmdbAuthValidate" | (app) "route = AppValidate"
    | (other) "route \<noteq> TmdbAuthValidate" "route \<noteq> AppValidate"
    by blast
  then show ?thesis
  proof cases
    case auth
    then show ?thesis
      using auth_validate_replies [of cfg net cs] by (auto simp: res_json_def)
  next
    case app
    then show ?thesis
      using app_validate_replies [of cfg net cs] by (auto simp: res_send_def)
  next
    case other
    then have "json_reply (fst (handle rt cfg net route query cs))"
      by (rule handle_json_reply)
    then show ?thesis
      using other by (auto simp: json_reply_def)
  qed
qed

theorem error_responses_witness:
  "status (fst (handle example_runtime example_config net_down MovieSearch (JStr []) [])) = 400
   \<and> body (fst (handle example_runtime example_config net_down MovieSearch (JStr []) []))
       = Json (JObj [(''error'', JStr ''Query parameter is required'')])"
  using error_responses [of example_runtime example_config net_down MovieSearch "JStr []" "[]"]
  by (simp add: movie_search_def res_json_def error_body_def)

end
